theory Spec2Isabelle
  imports Main
begin

section \<open>JavaScript values\<close>

text \<open>
  The framework handles untyped JavaScript values: request payloads, handler inputs and
  outputs, thrown errors, log data. An object is the list of the properties a lookup
  \<open>obj.key\<close> can see (own and inherited, in \<open>Object.entries\<close> order); an error instance
  carries the framework error class it is an instance of and its message. Numbers are
  integers or \<open>NaN\<close>: the pipeline does no arithmetic on payloads, and only whether a
  number is zero matters (for truthiness).
\<close>

datatype err_class =
    NotFoundError | UnauthorizedError | ForbiddenError | ConflictError
  | Error | TypeError | ReferenceError

datatype jsval =
    JUndefined
  | JNull
  | JBool bool
  | JNum int
  | JNaN
  | JStr string
  | JFun string
  | JErr err_class string
  | JArr "jsval list"
  | JObj "(string \<times> jsval) list"

text \<open>Property lookup \<open>obj.key\<close> on an object: a missing property reads as \<open>undefined\<close>.\<close>

definition get_prop :: "(string \<times> jsval) list \<Rightarrow> string \<Rightarrow> jsval" where
  "get_prop fs k = (case map_of fs k of None \<Rightarrow> JUndefined | Some v \<Rightarrow> v)"

text \<open>Truthiness, as \<open>if (v)\<close> and \<open>v && ...\<close> test it.\<close>

fun truthy :: "jsval \<Rightarrow> bool" where
  "truthy JUndefined = False"
| "truthy JNull = False"
| "truthy (JBool b) = b"
| "truthy (JNum n) = (n \<noteq> 0)"
| "truthy JNaN = False"
| "truthy (JStr s) = (s \<noteq> [])"
| "truthy (JFun f) = True"
| "truthy (JErr c m) = True"
| "truthy (JArr xs) = True"
| "truthy (JObj fs) = True"

text \<open>\<open>error instanceof C\<close> for the error classes.\<close>

fun instanceof :: "jsval \<Rightarrow> err_class \<Rightarrow> bool" where
  "instanceof (JErr c m) cls = (c = cls)"
| "instanceof v cls = False"

section \<open>The world: call trace and environment state\<close>

text \<open>
  Every call the framework makes to a service, a hook or the log sink is recorded, in
  order, in the trace. The user state \<open>'u\<close> is whatever the overridable methods read and
  write (databases, counters, the clock); they cannot touch the trace.
\<close>

datatype event =
    ServiceStart string
  | ServiceStop string
  | FactoryStart string
  | FactoryStop string
  | Log string jsval
  | ParseInput
  | BeforeHandle jsval
  | Handle jsval
  | AfterHandle jsval jsval
  | BeforeStopServices
  | AfterStopServices
  | AppHook string
  | ServerListen int
  | ServerClose bool
  | UnhandledRejection jsval

text \<open>The calls that make up a service's lifecycle within a request, and the calls of the
  handling pipeline.\<close>

fun lifecycle :: "event \<Rightarrow> bool" where
  "lifecycle (ServiceStart n) = True"
| "lifecycle (ServiceStop n) = True"
| "lifecycle BeforeStopServices = True"
| "lifecycle AfterStopServices = True"
| "lifecycle e = False"

fun pipeline_call :: "event \<Rightarrow> bool" where
  "pipeline_call ParseInput = True"
| "pipeline_call (BeforeHandle i) = True"
| "pipeline_call (Handle i) = True"
| "pipeline_call (AfterHandle i out) = True"
| "pipeline_call e = False"

fun server_close :: "event \<Rightarrow> bool" where
  "server_close (ServerClose l) = True"
| "server_close e = False"

record 'u world =
  trace :: "event list"
  user :: 'u

text \<open>
  An asynchronous or throwing method is a function from the state to a result and the
  new state; \<open>Inl e\<close> is a thrown value (a rejected promise), \<open>Inr a\<close> a normal return.
\<close>

definition return :: "'a \<Rightarrow> 's \<Rightarrow> (jsval + 'a) \<times> 's" where
  "return a w = (Inr a, w)"

definition throw :: "jsval \<Rightarrow> 's \<Rightarrow> (jsval + 'a) \<times> 's" where
  "throw e w = (Inl e, w)"

definition bind ::
  "('s \<Rightarrow> (jsval + 'a) \<times> 's) \<Rightarrow> ('a \<Rightarrow> 's \<Rightarrow> (jsval + 'b) \<times> 's) \<Rightarrow> 's \<Rightarrow> (jsval + 'b) \<times> 's" where
  "bind m f w = (case m w of (Inl e, w') \<Rightarrow> (Inl e, w') | (Inr a, w') \<Rightarrow> f a w')"

text \<open>Calling an overridable method: the call is recorded, then the method runs on the user state.\<close>

definition invoke ::
  "event \<Rightarrow> ('u \<Rightarrow> (jsval + 'a) \<times> 'u) \<Rightarrow> ('u, 'm) world_scheme \<Rightarrow> (jsval + 'a) \<times> ('u, 'm) world_scheme" where
  "invoke ev h w = (case h (user w) of (r, u') \<Rightarrow> (r, w\<lparr>trace := trace w @ [ev], user := u'\<rparr>))"

text \<open>
  \<open>Application.log\<close>, which \<open>Action.log\<close> delegates to: the sink receives the message and
  the data. The sink is an external collaborator; it records and does not fail.
\<close>

definition log :: "string \<Rightarrow> jsval \<Rightarrow> ('u, 'm) world_scheme \<Rightarrow> ('u, 'm) world_scheme" where
  "log message data w = w\<lparr>trace := trace w @ [Log message data]\<rparr>"

section \<open>Results and the error taxonomy\<close>

record result =
  status :: int
  body :: jsval

text \<open>\<open>Action.handleError\<close>: the \<open>instanceof\<close> chain, in the source's order.\<close>

definition handleError :: "jsval \<Rightarrow> ('u, 'm) world_scheme \<Rightarrow> result \<times> ('u, 'm) world_scheme" where
  "handleError error w =
     (if instanceof error NotFoundError then
        (\<lparr>status = 404, body = JObj [(''error'', JStr ''NotFound'')]\<rparr>, w)
      else if instanceof error UnauthorizedError then
        (\<lparr>status = 401, body = JObj [(''error'', JStr ''Unauthorized'')]\<rparr>, w)
      else if instanceof error ForbiddenError then
        (\<lparr>status = 403, body = JObj [(''error'', JStr ''Forbidden'')]\<rparr>, w)
      else if instanceof error ConflictError then
        (\<lparr>status = 409, body = JObj [(''error'', JStr ''Conflict'')]\<rparr>, w)
      else
        (\<lparr>status = 500, body = JObj [(''error'', JStr ''Internal'')]\<rparr>,
         log ''error'' (JObj [(''error'', error)]) w))"

section \<open>The request context\<close>

text \<open>
  The part of the koa context the pipeline touches: \<open>ctx.request.method\<close>,
  \<open>ctx.request.path\<close>, \<open>ctx.request.body\<close>, \<open>ctx.params\<close>, \<open>ctx.query\<close>, and the response
  fields \<open>ctx.status\<close> and \<open>ctx.body\<close>, which hold what was last assigned to them.
\<close>

record Context =
  request_method :: string
  request_path :: string
  request_body :: jsval
  params :: jsval
  query :: jsval
  response_status :: int
  response_body :: jsval

record 'u request_state = "'u world" +
  ctx :: Context

section \<open>The platform\<close>

text \<open>
  What the code imports from outside the repository: the Ajv schema compiler and the
  clock. \<open>ajv_compile opts schema\<close> is the compiled validate function of an Ajv instance
  created with the options \<open>opts\<close>; applied to a value it says whether the value is
  valid, gives the \<open>errors\<close> property left on the function, and the value as validation
  leaves it (Ajv coerces in place). \<open>global_name\<close> is what the free identifier \<open>name\<close>
  resolves to in the global scope, if anything.
\<close>

record ajv_options =
  allErrors :: bool
  coerceTypes :: bool
  format :: string

record ajv_outcome =
  valid :: bool
  errors :: jsval
  data :: jsval

record 'u platform =
  ajv_compile :: "ajv_options \<Rightarrow> jsval \<Rightarrow> jsval \<Rightarrow> ajv_outcome"
  Date_now :: "'u \<Rightarrow> int"
  global_name :: "string option"

section \<open>Validators\<close>

text \<open>
  A validator instance is its class and the schema it was compiled from.
  \<open>Validator.createAjv\<close> (inherited by \<open>BodyValidator\<close>) passes no \<open>coerceTypes\<close>, which Ajv
  reads as off; \<open>CoercingValidator.createAjv\<close> (inherited by \<open>ParamsValidator\<close> and
  \<open>QueryValidator\<close>) turns it on.
\<close>

datatype validator = BodyValidator jsval | ParamsValidator jsval | QueryValidator jsval

fun createAjv :: "validator \<Rightarrow> ajv_options" where
  "createAjv (BodyValidator schema) = \<lparr>allErrors = True, coerceTypes = False, format = ''full''\<rparr>"
| "createAjv (ParamsValidator schema) = \<lparr>allErrors = True, coerceTypes = True, format = ''full''\<rparr>"
| "createAjv (QueryValidator schema) = \<lparr>allErrors = True, coerceTypes = True, format = ''full''\<rparr>"

fun schema_of :: "validator \<Rightarrow> jsval" where
  "schema_of (BodyValidator schema) = schema"
| "schema_of (ParamsValidator schema) = schema"
| "schema_of (QueryValidator schema) = schema"

fun getValue :: "validator \<Rightarrow> Context \<Rightarrow> jsval" where
  "getValue (BodyValidator schema) c = request_body c"
| "getValue (ParamsValidator schema) c = params c"
| "getValue (QueryValidator schema) c = query c"

text \<open>Where the validated value lives: Ajv's in-place coercion shows there.\<close>

fun putValue :: "validator \<Rightarrow> jsval \<Rightarrow> Context \<Rightarrow> Context" where
  "putValue (BodyValidator schema) v c = c\<lparr>request_body := v\<rparr>"
| "putValue (ParamsValidator schema) v c = c\<lparr>params := v\<rparr>"
| "putValue (QueryValidator schema) v c = c\<lparr>query := v\<rparr>"

text \<open>\<open>ValidatorBase.validate\<close>.\<close>

definition ValidatorBase_validate ::
  "'u platform \<Rightarrow> validator \<Rightarrow> Context \<Rightarrow> result option \<times> Context" where
  "ValidatorBase_validate P v c =
     (let out = ajv_compile P (createAjv v) (schema_of v) (getValue v c) in
      (if valid out \<noteq> True then
         Some \<lparr>status = 400,
               body = JObj [(''error'', JStr ''Validation''), (''errors'', errors out)]\<rparr>
       else None,
       putValue v (data out) c))"

record schemas =
  body_schema :: jsval
  params_schema :: jsval
  query_schema :: jsval

record validators =
  body_validator :: "validator option"
  params_validator :: "validator option"
  query_validator :: "validator option"

text \<open>
  The static side of an \<open>Action\<close> subtype, as \<open>this.ctor\<close> shows it: its \<open>schemas\<close> (an
  undeclared schema is \<open>undefined\<close>) and the lazily created \<open>validators\<close>.
\<close>

record action_class =
  schemas :: "schemas option"
  validators :: "validators option"

text \<open>\<open>protected static schemas: Schemas = {}\<close>\<close>

definition Action_schemas :: schemas where
  "Action_schemas = \<lparr>body_schema = JUndefined, params_schema = JUndefined, query_schema = JUndefined\<rparr>"

text \<open>\<open>Action.ensureValidatorsCreated\<close>, run by the constructor: the new statics of the class.\<close>

definition ensureValidatorsCreated :: "action_class \<Rightarrow> action_class" where
  "ensureValidatorsCreated cls =
     (case validators cls of
        Some vs \<Rightarrow> cls
      | None \<Rightarrow>
          (case schemas cls of
             None \<Rightarrow>
               cls\<lparr>validators :=
                 Some \<lparr>body_validator = None, params_validator = None, query_validator = None\<rparr>\<rparr>
           | Some s \<Rightarrow>
               cls\<lparr>validators :=
                 Some \<lparr>body_validator =
                         (if truthy (body_schema s) then Some (BodyValidator (body_schema s)) else None),
                       params_validator =
                         (if truthy (params_schema s) then Some (ParamsValidator (params_schema s)) else None),
                       query_validator =
                         (if truthy (query_schema s) then Some (QueryValidator (query_schema s)) else None)\<rparr>\<rparr>))"

section \<open>Plain data objects\<close>

text \<open>
  \<open>isPlainDto\<close>. \<open>Array.prototype.every\<close> stops at the first element the callback rejects,
  and an exception of the callback leaves it. \<open>typeof null\<close> is \<open>'object'\<close>, and reading
  \<open>toJSON\<close> from \<open>null\<close> throws a \<open>TypeError\<close>; an error instance is an object without a
  \<open>toJSON\<close> of its own.
\<close>

fun isPlainDto :: "jsval \<Rightarrow> jsval + bool"
  and every_isPlainDto :: "jsval list \<Rightarrow> jsval + bool" where
  "isPlainDto (JArr xs) = every_isPlainDto xs"
| "isPlainDto (JObj fs) = Inr (get_prop fs ''toJSON'' = JUndefined)"
| "isPlainDto (JErr c m) = Inr True"
| "isPlainDto JNull = Inl (JErr TypeError ''Cannot read property toJSON of null'')"
| "isPlainDto JUndefined = Inr True"
| "isPlainDto (JBool b) = Inr True"
| "isPlainDto (JNum n) = Inr True"
| "isPlainDto JNaN = Inr True"
| "isPlainDto (JStr s) = Inr True"
| "isPlainDto (JFun f) = Inr True"
| "every_isPlainDto [] = Inr True"
| "every_isPlainDto (x # xs) =
     (case isPlainDto x of
        Inl e \<Rightarrow> Inl e
      | Inr plain \<Rightarrow> if plain then every_isPlainDto xs else Inr False)"

section \<open>Services\<close>

text \<open>
  A service is its two lifecycle methods; those of the base class \<open>Service\<close> do nothing.
\<close>

record 'u service =
  start :: "'u \<Rightarrow> (jsval + unit) \<times> 'u"
  stop :: "'u \<Rightarrow> (jsval + unit) \<times> 'u"

definition Service :: "'u service" where
  "Service = \<lparr>start = return (), stop = return ()\<rparr>"

text \<open>
  The loop of \<open>Application.forEachService\<close> and \<open>Application.forEachServiceFactory\<close>:
  \<open>for (const [name, x] of Object.entries(obj)) await callback(name, x)\<close>. The object is
  its \<open>Object.entries\<close> list; a callback that throws ends the loop.
\<close>

fun forEachEntry ::
  "(string \<times> 'x) list \<Rightarrow> (string \<Rightarrow> 'x \<Rightarrow> 's \<Rightarrow> (jsval + unit) \<times> 's) \<Rightarrow> 's \<Rightarrow> (jsval + unit) \<times> 's" where
  "forEachEntry [] callback w = (Inr (), w)"
| "forEachEntry ((name, x) # rest) callback w =
     (case callback name x w of
        (Inl e, w') \<Rightarrow> (Inl e, w')
      | (Inr u, w') \<Rightarrow> forEachEntry rest callback w')"

definition forEachService ::
  "(string \<times> 'u service) list \<Rightarrow> (string \<Rightarrow> 'u service \<Rightarrow> 's \<Rightarrow> (jsval + unit) \<times> 's) \<Rightarrow> 's \<Rightarrow> (jsval + unit) \<times> 's" where
  "forEachService svcs callback = forEachEntry svcs callback"

definition startServiceInstances ::
  "(string \<times> 'u service) list \<Rightarrow> ('u, 'm) world_scheme \<Rightarrow> (jsval + unit) \<times> ('u, 'm) world_scheme" where
  "startServiceInstances svcs =
     forEachService svcs (\<lambda>name service. invoke (ServiceStart name) (start service))"

definition stopServiceInstances ::
  "(string \<times> 'u service) list \<Rightarrow> ('u, 'm) world_scheme \<Rightarrow> (jsval + unit) \<times> ('u, 'm) world_scheme" where
  "stopServiceInstances svcs =
     forEachService svcs (\<lambda>name service. invoke (ServiceStop name) (stop service))"

section \<open>Action\<close>

text \<open>
  An \<open>Action\<close> instance: its class statics, the request's services, and the methods a
  subclass supplies or overrides. \<open>validate\<close>, \<open>handleError\<close>, \<open>respond\<close> and \<open>log\<close> are the
  base class's own implementations.
\<close>

record 'u action =
  ctor :: action_class
  services :: "(string \<times> 'u service) list"
  parseInput :: "Context \<Rightarrow> 'u \<Rightarrow> (jsval + jsval) \<times> 'u"
  beforeHandle :: "jsval \<Rightarrow> 'u \<Rightarrow> (jsval + jsval) \<times> 'u"
  handle :: "jsval \<Rightarrow> 'u \<Rightarrow> (jsval + jsval) \<times> 'u"
  afterHandle :: "jsval \<Rightarrow> jsval \<Rightarrow> 'u \<Rightarrow> (jsval + jsval) \<times> 'u"
  beforeStopServices :: "'u \<Rightarrow> (jsval + unit) \<times> 'u"
  afterStopServices :: "'u \<Rightarrow> (jsval + unit) \<times> 'u"

text \<open>
  The constructor with the base class's defaults for everything but \<open>handle\<close>:
  \<open>parseInput\<close> returns \<open>{}\<close>, \<open>beforeHandle\<close> and \<open>afterHandle\<close> pass their argument on, the
  two stop hooks do nothing.
\<close>

definition Action ::
  "action_class \<Rightarrow> (string \<times> 'u service) list \<Rightarrow> (jsval \<Rightarrow> 'u \<Rightarrow> (jsval + jsval) \<times> 'u) \<Rightarrow> 'u action" where
  "Action cls svcs h =
     \<lparr>ctor = ensureValidatorsCreated cls,
      services = svcs,
      parseInput = (\<lambda>c. return (JObj [])),
      beforeHandle = (\<lambda>input. return input),
      handle = h,
      afterHandle = (\<lambda>input output. return output),
      beforeStopServices = return (),
      afterStopServices = return ()\<rparr>"

text \<open>
  \<open>Action.validate\<close>. \<open>this.ctor.validators!\<close> is set by the constructor; without it the
  first property read throws.
\<close>

definition validate :: "'u platform \<Rightarrow> 'u action \<Rightarrow> Context \<Rightarrow> (jsval + result option) \<times> Context" where
  "validate P A c =
     (case validators (ctor A) of
        None \<Rightarrow> (Inl (JErr TypeError ''Cannot read property body of undefined''), c)
      | Some vs \<Rightarrow>
          (case (case body_validator vs of
                   Some v \<Rightarrow> ValidatorBase_validate P v c
                 | None \<Rightarrow> (None, c)) of
             (result1, c1) \<Rightarrow>
          (case (case (result1, params_validator vs) of
                   (None, Some v) \<Rightarrow> ValidatorBase_validate P v c1
                 | _ \<Rightarrow> (result1, c1)) of
             (result2, c2) \<Rightarrow>
          (case (case (result2, query_validator vs) of
                   (None, Some v) \<Rightarrow> ValidatorBase_validate P v c2
                 | _ \<Rightarrow> (result2, c2)) of
             (result3, c3) \<Rightarrow> (Inr result3, c3)))))"

text \<open>\<open>Action.respond\<close> and \<open>Action.handleResult\<close>.\<close>

definition respond :: "Context \<Rightarrow> result \<Rightarrow> Context" where
  "respond c r = c\<lparr>response_status := status r, response_body := body r\<rparr>"

definition handleResult :: "Context \<Rightarrow> result \<Rightarrow> Context" where
  "handleResult c r =
     (if status r \<ge> 200 \<and> status r < 300 then respond c r
      else c\<lparr>response_status := status r, response_body := body r\<rparr>)"

text \<open>
  \<open>Action.run\<close>, block by block. The \<open>try\<close> block either throws or leaves a result: the
  validation result of the early \<open>return\<close>, or the 200 result at its end.
\<close>

definition check_output :: "jsval \<Rightarrow> 's \<Rightarrow> (jsval + result) \<times> 's" where
  "check_output output =
     (if truthy output then
        (case isPlainDto output of
           Inl e \<Rightarrow> throw e
         | Inr plain \<Rightarrow>
             if \<not> plain then throw (JErr Error ''always return plain objects (DTOs)'')
             else return \<lparr>status = 200, body = output\<rparr>)
      else return \<lparr>status = 200, body = output\<rparr>)"

definition run_try :: "'u platform \<Rightarrow> 'u action \<Rightarrow> 'u request_state \<Rightarrow> (jsval + result) \<times> 'u request_state" where
  "run_try P A w0 =
     bind (startServiceInstances (services A)) (\<lambda>u.
     bind (\<lambda>w. return () (log ''request started''
                  (JObj [(''method'', JStr (request_method (ctx w0))), (''path'', JStr (request_path (ctx w0)))]) w)) (\<lambda>u.
     bind (\<lambda>w. case validate P A (ctx w) of (r, c') \<Rightarrow> (r, w\<lparr>ctx := c'\<rparr>)) (\<lambda>validationResult.
       case validationResult of
         Some r \<Rightarrow> return r
       | None \<Rightarrow>
           bind (\<lambda>w. invoke ParseInput (parseInput A (ctx w)) w) (\<lambda>discarded.
           bind (\<lambda>w. invoke ParseInput (parseInput A (ctx w)) w) (\<lambda>parsed.
           bind (invoke (BeforeHandle parsed) (beforeHandle A parsed)) (\<lambda>input.
           bind (invoke (Handle input) (handle A input)) (\<lambda>output.
           bind (invoke (AfterHandle input output) (afterHandle A input output)) (\<lambda>output.
           check_output output)))))))) w0"

text \<open>The \<open>catch\<close> block turns a thrown value into a result.\<close>

definition run_catch ::
  "(jsval + result) \<times> 'u request_state \<Rightarrow> result \<times> 'u request_state" where
  "run_catch rw = (case rw of (Inr r, w) \<Rightarrow> (r, w) | (Inl err, w) \<Rightarrow> handleError err w)"

text \<open>The \<open>finally\<close> block.\<close>

definition run_finally ::
  "'u platform \<Rightarrow> 'u action \<Rightarrow> int \<Rightarrow> result \<Rightarrow> 'u request_state \<Rightarrow> (jsval + unit) \<times> 'u request_state" where
  "run_finally P A requestStartTime r w =
     bind (\<lambda>w. return () (w\<lparr>ctx := handleResult (ctx w) r\<rparr>)) (\<lambda>u.
     bind (\<lambda>w. return () (log ''request ended''
                  (JObj [(''status'', JNum (status r)),
                         (''requestTime'', JNum (Date_now P (user w) - requestStartTime))]) w)) (\<lambda>u.
     bind (invoke BeforeStopServices (beforeStopServices A)) (\<lambda>u.
     bind (stopServiceInstances (services A)) (\<lambda>u.
     invoke AfterStopServices (afterStopServices A))))) w"

definition run :: "'u platform \<Rightarrow> 'u action \<Rightarrow> 'u request_state \<Rightarrow> (jsval + unit) \<times> 'u request_state" where
  "run P A w0 =
     (let requestStartTime = Date_now P (user w0) in
      case run_catch (run_try P A w0) of
        (r, w) \<Rightarrow> run_finally P A requestStartTime r w)"

section \<open>Application\<close>

text \<open>
  A value of the factories map either is an instance of \<open>ServiceFactory\<close>, with its
  lifecycle methods (those of the base class do nothing), or is some other value, which
  has no such methods.
\<close>

record 'u service_factory =
  factory_start :: "'u \<Rightarrow> (jsval + unit) \<times> 'u"
  factory_stop :: "'u \<Rightarrow> (jsval + unit) \<times> 'u"

definition ServiceFactory :: "'u service_factory" where
  "ServiceFactory = \<lparr>factory_start = return (), factory_stop = return ()\<rparr>"

datatype 'u factory_value = IsServiceFactory "'u service_factory" | NotServiceFactory jsval

text \<open>
  The listening socket: the \<open>net.Server\<close> object. \<open>close\<close> on a server that is not
  listening reports an error to its callback and does not throw.
\<close>

record server =
  server_port :: int
  listening :: bool

text \<open>
  The methods a concrete application supplies or overrides, and its configuration. The
  koa application is the list of the middleware mounted on it.
\<close>

record 'u application =
  port :: int
  createServiceFactories :: "'u \<Rightarrow> (jsval + (string \<times> 'u factory_value) list) \<times> 'u"
  registerRoutes :: "'u \<Rightarrow> (jsval + unit) \<times> 'u"
  beforeKoaConfigured :: "string list \<Rightarrow> 'u \<Rightarrow> (jsval + string list) \<times> 'u"
  afterKoaBodyParserAdded :: "string list \<Rightarrow> 'u \<Rightarrow> (jsval + string list) \<times> 'u"
  afterKoaConfigured :: "string list \<Rightarrow> 'u \<Rightarrow> (jsval + string list) \<times> 'u"

text \<open>The fields of the application object that \<open>configure\<close>, \<open>start\<close> and \<open>stop\<close> read and write.\<close>

record 'u app_state = "'u world" +
  serviceFactories :: "(string \<times> 'u factory_value) list option"
  koa :: "string list option"
  server :: "server option"

text \<open>\<open>Object.entries\<close> of an unset \<open>serviceFactories\<close> throws.\<close>

definition forEachServiceFactory ::
  "(string \<Rightarrow> 'u factory_value \<Rightarrow> ('u, 'm) app_state_scheme \<Rightarrow> (jsval + unit) \<times> ('u, 'm) app_state_scheme)
     \<Rightarrow> ('u, 'm) app_state_scheme \<Rightarrow> (jsval + unit) \<times> ('u, 'm) app_state_scheme" where
  "forEachServiceFactory callback w =
     (case serviceFactories w of
        None \<Rightarrow> throw (JErr TypeError ''Cannot convert undefined or null to object'') w
      | Some fs \<Rightarrow> forEachEntry fs callback w)"

text \<open>
  \<open>Application.typeCheckServiceFactories\<close>. The callback names its first parameter \<open>_\<close>,
  so the \<open>name\<close> in the message is the global one. The promise of
  \<open>forEachServiceFactory\<close> is neither awaited nor returned: the method's own promise
  resolves, and a rejection of the loop is left unhandled.
\<close>

definition typeCheck_callback ::
  "'u platform \<Rightarrow> string \<Rightarrow> 'u factory_value \<Rightarrow> 's \<Rightarrow> (jsval + unit) \<times> 's" where
  "typeCheck_callback P underscore factory =
     (case factory of
        IsServiceFactory f \<Rightarrow> return ()
      | NotServiceFactory v \<Rightarrow>
          (case global_name P of
             None \<Rightarrow> throw (JErr ReferenceError ''name is not defined'')
           | Some name \<Rightarrow> throw (JErr Error (name @ '' is not an instance of ServiceFactory''))))"

definition typeCheckServiceFactories ::
  "'u platform \<Rightarrow> ('u, 'm) app_state_scheme \<Rightarrow> (jsval + unit) \<times> ('u, 'm) app_state_scheme" where
  "typeCheckServiceFactories P w =
     (case forEachServiceFactory (typeCheck_callback P) w of
        (Inl e, w') \<Rightarrow> (Inr (), w'\<lparr>trace := trace w' @ [UnhandledRejection e]\<rparr>)
      | (Inr u, w') \<Rightarrow> (Inr (), w'))"

text \<open>\<open>Application.createKoa\<close>.\<close>

definition createKoa ::
  "'u application \<Rightarrow> ('u, 'm) world_scheme \<Rightarrow> (jsval + string list) \<times> ('u, 'm) world_scheme" where
  "createKoa app =
     bind (invoke (AppHook ''beforeKoaConfigured'') (beforeKoaConfigured app [])) (\<lambda>k.
     bind (invoke (AppHook ''afterKoaBodyParserAdded'') (afterKoaBodyParserAdded app (k @ [''bodyParser'']))) (\<lambda>k.
     invoke (AppHook ''afterKoaConfigured'')
       (afterKoaConfigured app (k @ [''routes'', ''allowedMethods'']))))"

text \<open>\<open>Application.configure\<close>.\<close>

definition configure ::
  "'u platform \<Rightarrow> 'u application \<Rightarrow> 'u app_state \<Rightarrow> (jsval + unit) \<times> 'u app_state" where
  "configure P app =
     bind (invoke (AppHook ''createServiceFactories'') (createServiceFactories app)) (\<lambda>fs.
     bind (\<lambda>w. return () (w\<lparr>serviceFactories := Some fs\<rparr>)) (\<lambda>u.
     bind (typeCheckServiceFactories P) (\<lambda>u.
     bind (invoke (AppHook ''registerRoutes'') (registerRoutes app)) (\<lambda>u.
     bind (createKoa app) (\<lambda>k w. return () (w\<lparr>koa := Some k\<rparr>))))))"

text \<open>
  \<open>startServiceFactories\<close> and \<open>stopServiceFactories\<close>: calling \<open>start\<close> or \<open>stop\<close> on a value
  that has no such method throws.
\<close>

definition startServiceFactories ::
  "('u, 'm) app_state_scheme \<Rightarrow> (jsval + unit) \<times> ('u, 'm) app_state_scheme" where
  "startServiceFactories =
     forEachServiceFactory (\<lambda>name factory.
       case factory of
         IsServiceFactory f \<Rightarrow> invoke (FactoryStart name) (factory_start f)
       | NotServiceFactory v \<Rightarrow> throw (JErr TypeError ''factory.start is not a function''))"

definition stopServiceFactories ::
  "('u, 'm) app_state_scheme \<Rightarrow> (jsval + unit) \<times> ('u, 'm) app_state_scheme" where
  "stopServiceFactories =
     forEachServiceFactory (\<lambda>name factory.
       case factory of
         IsServiceFactory f \<Rightarrow> invoke (FactoryStop name) (factory_stop f)
       | NotServiceFactory v \<Rightarrow> throw (JErr TypeError ''factory.stop is not a function''))"

text \<open>
  \<open>startServer\<close> and \<open>stopServer\<close>. \<open>stopServer\<close> calls \<open>server.close\<close> whatever the state
  of the server; the event records whether it was listening.
\<close>

definition startServer ::
  "'u application \<Rightarrow> ('u, 'm) app_state_scheme \<Rightarrow> (jsval + server) \<times> ('u, 'm) app_state_scheme" where
  "startServer app w =
     (case koa w of
        None \<Rightarrow> throw (JErr TypeError ''Cannot read property callback of undefined'') w
      | Some k \<Rightarrow>
          return \<lparr>server_port = port app, listening = True\<rparr>
            (w\<lparr>trace := trace w @ [ServerListen (port app)]\<rparr>))"

definition stopServer ::
  "server \<Rightarrow> ('u, 'm) app_state_scheme \<Rightarrow> (jsval + unit) \<times> ('u, 'm) app_state_scheme" where
  "stopServer srv w =
     return () (w\<lparr>trace := trace w @ [ServerClose (listening srv)],
                 server := Some (srv\<lparr>listening := False\<rparr>)\<rparr>)"

text \<open>\<open>Application.start\<close> and \<open>Application.stop\<close>.\<close>

definition Application_start ::
  "'u application \<Rightarrow> 'u app_state \<Rightarrow> (jsval + unit) \<times> 'u app_state" where
  "Application_start app w =
     (if serviceFactories w = None then
        throw (JErr Error ''run `await app.configure()` before `await app.start()`'') w
      else
        bind startServiceFactories (\<lambda>u.
        bind (startServer app) (\<lambda>srv w. return () (w\<lparr>server := Some srv\<rparr>))) w)"

definition Application_stop :: "'u app_state \<Rightarrow> (jsval + unit) \<times> 'u app_state" where
  "Application_stop =
     bind (\<lambda>w. case server w of Some srv \<Rightarrow> stopServer srv w | None \<Rightarrow> return () w) (\<lambda>u.
     stopServiceFactories)"

text \<open>A new application object: nothing configured, nothing started.\<close>

definition new_Application :: "'u \<Rightarrow> 'u app_state" where
  "new_Application u =
     \<lparr>trace = [], user = u, serviceFactories = None, koa = None, server = None\<rparr>"

section \<open>Notions of the specification\<close>





definition own_validators :: "action_class \<Rightarrow> bool" where
  "own_validators cls =
     (validators cls = None
      \<or> validators cls = validators (ensureValidatorsCreated (cls\<lparr>validators := None\<rparr>)))"

text \<open>
  A plain data object: an object without a \<open>toJSON\<close>, or an array of plain data objects.
  Its opposite in the sense of the specification: an object with a custom \<open>toJSON\<close>, or
  an array containing such an object.
\<close>

fun plain_object :: "jsval \<Rightarrow> bool" and plain_objects :: "jsval list \<Rightarrow> bool" where
  "plain_object (JObj fs) = (get_prop fs ''toJSON'' = JUndefined)"
| "plain_object (JArr xs) = plain_objects xs"
| "plain_object JUndefined = False"
| "plain_object JNull = False"
| "plain_object (JBool b) = False"
| "plain_object (JNum n) = False"
| "plain_object JNaN = False"
| "plain_object (JStr s) = False"
| "plain_object (JFun f) = False"
| "plain_object (JErr c m) = False"
| "plain_objects [] = True"
| "plain_objects (x # xs) = (plain_object x \<and> plain_objects xs)"

fun custom_toJSON :: "jsval \<Rightarrow> bool" and some_custom_toJSON :: "jsval list \<Rightarrow> bool" where
  "custom_toJSON (JObj fs) = (get_prop fs ''toJSON'' \<noteq> JUndefined)"
| "custom_toJSON (JArr xs) = some_custom_toJSON xs"
| "custom_toJSON JUndefined = False"
| "custom_toJSON JNull = False"
| "custom_toJSON (JBool b) = False"
| "custom_toJSON (JNum n) = False"
| "custom_toJSON JNaN = False"
| "custom_toJSON (JStr s) = False"
| "custom_toJSON (JFun f) = False"
| "custom_toJSON (JErr c m) = False"
| "some_custom_toJSON [] = False"
| "some_custom_toJSON (x # xs) = (custom_toJSON x \<or> some_custom_toJSON xs)"

section \<open>What the code relies on in Ajv\<close>

text \<open>
  The schema \<open>{type: 'object', properties: {k: {type: ty}}}\<close>; a schema that declares the
  property \<open>k\<close> an integer; a value whose property \<open>k\<close> is a string; a string of decimal
  digits; and a string that looks like a value of the declared type (digits for an
  integer, \<open>true\<close> or \<open>false\<close> for a boolean).
\<close>

definition typed_property_schema :: "string \<Rightarrow> string \<Rightarrow> jsval" where
  "typed_property_schema k ty =
     JObj [(''type'', JStr ''object''), (''properties'', JObj [(k, JObj [(''type'', JStr ty)])])]"

definition integer_property :: "jsval \<Rightarrow> string \<Rightarrow> bool" where
  "integer_property schema k =
     (case schema of
        JObj sch \<Rightarrow>
          (case get_prop sch ''properties'' of
             JObj props \<Rightarrow>
               (case get_prop props k of
                  JObj p \<Rightarrow> get_prop p ''type'' = JStr ''integer''
                | _ \<Rightarrow> False)
           | _ \<Rightarrow> False)
      | _ \<Rightarrow> False)"

definition string_property :: "jsval \<Rightarrow> string \<Rightarrow> bool" where
  "string_property v k =
     (case v of
        JObj fs \<Rightarrow> (case get_prop fs k of JStr s \<Rightarrow> True | _ \<Rightarrow> False)
      | _ \<Rightarrow> False)"

definition numeric_looking :: "string \<Rightarrow> bool" where
  "numeric_looking s = (s \<noteq> [] \<and> list_all (\<lambda>c. c \<in> set ''0123456789'') s)"

definition coercible :: "string \<Rightarrow> string \<Rightarrow> bool" where
  "coercible ty s =
     (ty = ''integer'' \<and> numeric_looking s \<or> ty = ''boolean'' \<and> (s = ''true'' \<or> s = ''false''))"

text \<open>
  Ajv's documented behaviour, as far as the claims about coercion need it. Without
  \<open>coerceTypes\<close> a string never satisfies \<open>type: integer\<close>; with it, a string of digits
  satisfies \<open>type: integer\<close> and the strings \<open>true\<close> and \<open>false\<close> satisfy \<open>type: boolean\<close>.
\<close>

definition ajv_strict :: "(ajv_options \<Rightarrow> jsval \<Rightarrow> jsval \<Rightarrow> ajv_outcome) \<Rightarrow> bool" where
  "ajv_strict compile =
     (\<forall>opts schema v k.
        \<not> coerceTypes opts \<and> integer_property schema k \<and> string_property v k
          \<longrightarrow> \<not> valid (compile opts schema v))"

definition ajv_coercing :: "(ajv_options \<Rightarrow> jsval \<Rightarrow> jsval \<Rightarrow> ajv_outcome) \<Rightarrow> bool" where
  "ajv_coercing compile =
     (\<forall>opts k s.
        coerceTypes opts \<longrightarrow>
          (numeric_looking s \<longrightarrow>
             valid (compile opts (typed_property_schema k ''integer'') (JObj [(k, JStr s)])))
          \<and> (s = ''true'' \<or> s = ''false'' \<longrightarrow>
             valid (compile opts (typed_property_schema k ''boolean'') (JObj [(k, JStr s)]))))"

section \<open>An example application\<close>

text \<open>
  A small engine with Ajv's interface, for running the model on concrete requests: it
  checks the \<open>type\<close> of the declared properties of an object, for the types \<open>integer\<close>
  and \<open>boolean\<close>, and reports a violation the way Ajv does.
\<close>

definition digits_value :: "string \<Rightarrow> int" where
  "digits_value s = foldl (\<lambda>n c. 10 * n + (int (of_char c) - 48)) 0 s"

definition type_error :: "string \<Rightarrow> string \<Rightarrow> jsval" where
  "type_error key ty =
     JObj [(''keyword'', JStr ''type''),
           (''dataPath'', JStr (''.'' @ key)),
           (''schemaPath'', JStr (''#/properties/'' @ key @ ''/type'')),
           (''params'', JObj [(''type'', JStr ty)]),
           (''message'', JStr (''should be '' @ ty))]"

definition check_type :: "bool \<Rightarrow> string \<Rightarrow> jsval \<Rightarrow> jsval option" where
  "check_type coerce ty v =
     (if ty = ''integer'' then
        (case v of
           JNum n \<Rightarrow> Some v
         | JStr s \<Rightarrow> if coerce \<and> numeric_looking s then Some (JNum (digits_value s)) else None
         | _ \<Rightarrow> None)
      else if ty = ''boolean'' then
        (case v of
           JBool b \<Rightarrow> Some v
         | JStr s \<Rightarrow>
             if coerce \<and> s = ''true'' then Some (JBool True)
             else if coerce \<and> s = ''false'' then Some (JBool False)
             else None
         | _ \<Rightarrow> None)
      else Some v)"

fun check_fields ::
  "bool \<Rightarrow> (string \<times> jsval) list \<Rightarrow> (string \<times> jsval) list \<Rightarrow> jsval list \<times> (string \<times> jsval) list" where
  "check_fields coerce props [] = ([], [])"
| "check_fields coerce props ((k, v) # rest) =
     (case check_fields coerce props rest of
        (errs, fs) \<Rightarrow>
          (case get_prop props k of
             JObj sch \<Rightarrow>
               (case get_prop sch ''type'' of
                  JStr ty \<Rightarrow>
                    (case check_type coerce ty v of
                       Some v' \<Rightarrow> (errs, (k, v') # fs)
                     | None \<Rightarrow> (type_error k ty # errs, (k, v) # fs))
                | _ \<Rightarrow> (errs, (k, v) # fs))
           | _ \<Rightarrow> (errs, (k, v) # fs)))"

definition demo_ajv :: "ajv_options \<Rightarrow> jsval \<Rightarrow> jsval \<Rightarrow> ajv_outcome" where
  "demo_ajv opts schema v =
     (case (schema, v) of
        (JObj sch, JObj fs) \<Rightarrow>
          (case get_prop sch ''properties'' of
             JObj props \<Rightarrow>
               (case check_fields (coerceTypes opts) props fs of
                  (errs, fs') \<Rightarrow>
                    \<lparr>valid = (errs = []),
                     errors = (if errs = [] then JNull else JArr errs),
                     data = JObj fs'\<rparr>)
           | _ \<Rightarrow> \<lparr>valid = True, errors = JNull, data = v\<rparr>)
      | _ \<Rightarrow> \<lparr>valid = True, errors = JNull, data = v\<rparr>)"

text \<open>The example's user state is a counter, which also serves as its clock.\<close>

definition demo_platform :: "nat platform" where
  "demo_platform = \<lparr>ajv_compile = demo_ajv, Date_now = int, global_name = None\<rparr>"

text \<open>
  A factory whose \<open>stop\<close> succeeds once and throws when called again (the user state
  counts the calls).
\<close>

definition OnceFactory :: "nat service_factory" where
  "OnceFactory =
     \<lparr>factory_start = return (),
      factory_stop = (\<lambda>stops. if stops = 0 then (Inr (), 1)
                               else (Inl (JErr Error ''already stopped''), stops))\<rparr>"

text \<open>
  An application with the base class's hooks (they leave the koa application as it is)
  around the given factories map; the application after \<open>configure\<close>, and after \<open>start\<close>.
\<close>

definition Application :: "(string \<times> 'u factory_value) list \<Rightarrow> 'u application" where
  "Application fs =
     \<lparr>port = 3000,
      createServiceFactories = return fs,
      registerRoutes = return (),
      beforeKoaConfigured = return,
      afterKoaBodyParserAdded = return,
      afterKoaConfigured = return\<rparr>"

definition configured :: "(string \<times> nat factory_value) list \<Rightarrow> nat app_state" where
  "configured fs = snd (configure demo_platform (Application fs) (new_Application 0))"

definition started :: "(string \<times> nat factory_value) list \<Rightarrow> nat app_state" where
  "started fs = snd (Application_start (Application fs) (configured fs))"

text \<open>
  The user \<open>{id: 1, username: "jakso"}\<close> as a plain object, and as a model instance that
  brings its own \<open>toJSON\<close>.
\<close>

definition user_dto :: jsval where
  "user_dto = JObj [(''id'', JNum 1), (''username'', JStr ''jakso'')]"

definition user_model :: jsval where
  "user_model = JObj [(''id'', JNum 1), (''username'', JStr ''jakso''), (''toJSON'', JFun ''toJSON'')]"

text \<open>
  The actions. \<open>GET /users/:id\<close>: the params schema declares \<open>id\<close> an integer.
  \<open>POST /users\<close>: the body schema declares \<open>id\<close> an integer. \<open>GET /users\<close>: the query
  schema declares \<open>withRoles\<close> a boolean. \<open>GET /health\<close>: no schemas, no services. And
  an action whose \<open>parseInput\<close> counts its calls in the user state and returns the count.
\<close>

definition GetUserAction :: "(jsval \<Rightarrow> nat \<Rightarrow> (jsval + jsval) \<times> nat) \<Rightarrow> nat action" where
  "GetUserAction h =
     Action \<lparr>schemas = Some (Action_schemas\<lparr>params_schema := typed_property_schema ''id'' ''integer''\<rparr>),
             validators = None\<rparr>
       [(''db'', Service), (''users'', Service)] h"

definition CreateUserAction :: "nat action" where
  "CreateUserAction =
     Action \<lparr>schemas = Some (Action_schemas\<lparr>body_schema := typed_property_schema ''id'' ''integer''\<rparr>),
             validators = None\<rparr>
       [(''db'', Service), (''users'', Service)] (\<lambda>input. return user_dto)"

definition ListUsersAction :: "nat action" where
  "ListUsersAction =
     Action \<lparr>schemas = Some (Action_schemas\<lparr>query_schema := typed_property_schema ''withRoles'' ''boolean''\<rparr>),
             validators = None\<rparr>
       [(''db'', Service), (''users'', Service)] (\<lambda>input. return (JArr [user_dto]))"


definition CountingAction :: "nat action" where
  "CountingAction =
     (GetUserAction (\<lambda>input. return (JObj [(''parsed'', input)])))
       \<lparr>parseInput := (\<lambda>c calls. (Inr (JNum (int calls)), Suc calls))\<rparr>"

text \<open>The requests.\<close>

definition request :: "string \<Rightarrow> string \<Rightarrow> jsval \<Rightarrow> jsval \<Rightarrow> nat request_state" where
  "request m p b ps =
     \<lparr>trace = [], user = 0,
      ctx = \<lparr>request_method = m, request_path = p, request_body = b, params = ps, query = JObj [],
             response_status = 404, response_body = JUndefined\<rparr>\<rparr>"

definition get_user :: "string \<Rightarrow> nat request_state" where
  "get_user ident = request ''GET'' (''/users/'' @ ident) (JObj []) (JObj [(''id'', JStr ident)])"

definition post_user :: "jsval \<Rightarrow> nat request_state" where
  "post_user b = request ''POST'' ''/users'' b (JObj [])"

definition list_users :: "jsval \<Rightarrow> nat request_state" where
  "list_users q = (request ''GET'' ''/users'' (JObj []) (JObj []))
     \<lparr>ctx := (ctx (request ''GET'' ''/users'' (JObj []) (JObj [])))\<lparr>query := q\<rparr>\<rparr>"

section \<open>Properties\<close>

subsection \<open>Calls, loops and their traces\<close>

lemma invoke_eq:
  "invoke ev h w = (r, w') \<longleftrightarrow>
     (\<exists>u'. h (user w) = (r, u') \<and> w' = w\<lparr>trace := trace w @ [ev], user := u'\<rparr>)"
  by (auto simp: invoke_def split: prod.splits)

lemma invoke_trace: "trace (snd (invoke ev h w)) = trace w @ [ev]"
  by (simp add: invoke_def split: prod.splits)

lemma invoke_ctx: "ctx (snd (invoke ev h w)) = ctx w"
  by (simp add: invoke_def split: prod.splits)

lemma forEachEntry_invoke:
  "\<exists>evs. trace (snd (forEachEntry xs (\<lambda>name x. invoke (ev name) (h x)) w)) = trace w @ evs
         \<and> set evs \<subseteq> range ev"
proof (induction xs arbitrary: w)
  case Nil
  show ?case by simp
next
  case (Cons a xs)
  obtain n x where a: "a = (n, x)" by (cases a)
  obtain r w1 where 1: "invoke (ev n) (h x) w = (r, w1)" by (cases "invoke (ev n) (h x) w")
  then have t1: "trace w1 = trace w @ [ev n]" by (auto simp: invoke_eq)
  show ?case
  proof (cases r)
    case (Inl e)
    with 1 a t1 show ?thesis by auto
  next
    case (Inr u)
    from Cons.IH [of w1] obtain evs where
      "trace (snd (forEachEntry xs (\<lambda>name x. invoke (ev name) (h x)) w1)) = trace w1 @ evs"
      "set evs \<subseteq> range ev" by blast
    with 1 a t1 Inr have
      "trace (snd (forEachEntry (a # xs) (\<lambda>name x. invoke (ev name) (h x)) w)) = trace w @ (ev n # evs)
       \<and> set (ev n # evs) \<subseteq> range ev" by auto
    then show ?thesis by blast
  qed
qed

lemma forEachEntry_invoke_ctx:
  "ctx (snd (forEachEntry xs (\<lambda>name x. invoke (ev name) (h x)) w)) = ctx w"
proof (induction xs arbitrary: w)
  case Nil
  show ?case by simp
next
  case (Cons a xs)
  obtain n x where a: "a = (n, x)" by (cases a)
  obtain r w1 where 1: "invoke (ev n) (h x) w = (r, w1)" by (cases "invoke (ev n) (h x) w")
  then have "ctx w1 = ctx w" by (auto simp: invoke_eq)
  with Cons.IH [of w1] 1 a show ?case by (cases r) auto
qed

lemma forEachEntry_invoke_ok:
  assumes "forEachEntry xs (\<lambda>name x. invoke (ev name) (h x)) w = (Inr (), w')"
  shows "trace w' = trace w @ map (\<lambda>(n, x). ev n) xs"
  using assms
proof (induction xs arbitrary: w)
  case Nil
  then show ?case by simp
next
  case (Cons a xs)
  obtain n x where a: "a = (n, x)" by (cases a)
  from Cons.prems a obtain w1 where
    1: "invoke (ev n) (h x) w = (Inr (), w1)" and
    2: "forEachEntry xs (\<lambda>name x. invoke (ev name) (h x)) w1 = (Inr (), w')"
    by (auto split: prod.splits sum.splits)
  from 1 have "trace w1 = trace w @ [ev n]" by (auto simp: invoke_eq)
  with Cons.IH [OF 2] a show ?case by simp
qed


lemma start_ok:
  assumes "startServiceInstances svcs w = (Inr (), w')"
  shows "trace w' = trace w @ map (\<lambda>(n, s). ServiceStart n) svcs" and "ctx w' = ctx w"
proof -
  from assms show "trace w' = trace w @ map (\<lambda>(n, s). ServiceStart n) svcs"
    unfolding startServiceInstances_def forEachService_def by (rule forEachEntry_invoke_ok)
  have "ctx (snd (startServiceInstances svcs w)) = ctx w"
    unfolding startServiceInstances_def forEachService_def by (rule forEachEntry_invoke_ctx)
  with assms show "ctx w' = ctx w" by simp
qed


lemma stop_any:
  "\<exists>evs. trace (snd (stopServiceInstances svcs w)) = trace w @ evs \<and> set evs \<subseteq> range ServiceStop"
  unfolding stopServiceInstances_def forEachService_def by (rule forEachEntry_invoke)

lemma stop_ctx: "ctx (snd (stopServiceInstances svcs w)) = ctx w"
  unfolding stopServiceInstances_def forEachService_def by (rule forEachEntry_invoke_ctx)

subsection \<open>The blocks of run\<close>

lemma check_output_state: "snd (check_output v w) = w"
  by (simp add: check_output_def throw_def return_def split: sum.splits)


lemma run_catch_trace:
  "\<exists>evs. trace (snd (run_catch rw)) = trace (snd rw) @ evs
         \<and> (\<forall>e \<in> set evs. \<not> lifecycle e \<and> \<not> pipeline_call e)"
  by (cases rw) (auto simp: run_catch_def handleError_def log_def split: sum.splits)

lemma run_catch_ctx: "ctx (snd (run_catch rw)) = ctx (snd rw)"
  by (cases rw) (auto simp: run_catch_def handleError_def log_def split: sum.splits)

lemma run_finally_ctx: "ctx (snd (run_finally P A t r w)) = handleResult (ctx w) r"
proof -
  define w1 where "w1 = log ''request ended''
     (JObj [(''status'', JNum (status r)), (''requestTime'', JNum (Date_now P (user w) - t))])
     (w\<lparr>ctx := handleResult (ctx w) r\<rparr>)"
  have c1: "ctx w1 = handleResult (ctx w) r" by (simp add: w1_def log_def)
  obtain rb wb where b: "invoke BeforeStopServices (beforeStopServices A) w1 = (rb, wb)"
    by (cases "invoke BeforeStopServices (beforeStopServices A) w1")
  then have cb: "ctx wb = ctx w1" by (auto simp: invoke_eq)
  obtain rs wst where s: "stopServiceInstances (services A) wb = (rs, wst)"
    by (cases "stopServiceInstances (services A) wb")
  with stop_ctx [of "services A" wb] have cs: "ctx wst = ctx wb" by simp
  have "run_finally P A t r w =
          (case rb of Inl e \<Rightarrow> (Inl e, wb)
           | Inr u \<Rightarrow> (case rs of Inl e \<Rightarrow> (Inl e, wst)
               | Inr u \<Rightarrow> invoke AfterStopServices (afterStopServices A) wst))"
    using b s by (simp add: run_finally_def bind_def return_def w1_def split: sum.splits)
  then show ?thesis using c1 cb cs by (auto simp: invoke_ctx split: sum.splits)
qed

lemma run_finally_pipeline:
  "filter pipeline_call (trace (snd (run_finally P A t r w))) = filter pipeline_call (trace w)"
proof -
  define w1 where "w1 = log ''request ended''
     (JObj [(''status'', JNum (status r)), (''requestTime'', JNum (Date_now P (user w) - t))])
     (w\<lparr>ctx := handleResult (ctx w) r\<rparr>)"
  have t1: "filter pipeline_call (trace w1) = filter pipeline_call (trace w)"
    by (simp add: w1_def log_def)
  obtain rb wb where b: "invoke BeforeStopServices (beforeStopServices A) w1 = (rb, wb)"
    by (cases "invoke BeforeStopServices (beforeStopServices A) w1")
  then have tb: "filter pipeline_call (trace wb) = filter pipeline_call (trace w1)"
    by (auto simp: invoke_eq)
  obtain rs wst where s: "stopServiceInstances (services A) wb = (rs, wst)"
    by (cases "stopServiceInstances (services A) wb")
  from stop_any [of "services A" wb] s obtain evs where
    "trace wst = trace wb @ evs" "set evs \<subseteq> range ServiceStop" by auto
  then have ts: "filter pipeline_call (trace wst) = filter pipeline_call (trace wb)"
    by (auto simp: filter_empty_conv)
  have "run_finally P A t r w =
          (case rb of Inl e \<Rightarrow> (Inl e, wb)
           | Inr u \<Rightarrow> (case rs of Inl e \<Rightarrow> (Inl e, wst)
               | Inr u \<Rightarrow> invoke AfterStopServices (afterStopServices A) wst))"
    using b s by (simp add: run_finally_def bind_def return_def w1_def split: sum.splits)
  then show ?thesis using t1 tb ts by (auto simp: invoke_trace split: sum.splits)
qed



lemma handleResult_response:
  "response_status (handleResult c r) = status r \<and> response_body (handleResult c r) = body r"
  by (simp add: handleResult_def respond_def)

lemma run_response:
  assumes "run_catch (run_try P A w0) = (r, w)"
  shows "response_status (ctx (snd (run P A w0))) = status r"
    and "response_body (ctx (snd (run P A w0))) = body r"
    and "filter pipeline_call (trace (snd (run P A w0))) = filter pipeline_call (trace w)"
  using assms by (simp_all add: run_def run_finally_ctx run_finally_pipeline handleResult_response)

lemma run_try_calls:
  assumes "startServiceInstances (services A) w0 = (Inr (), ws)"
    and "validate P A (ctx w0) = (Inr None, c1)"
    and "parseInput A c1 (user ws) = (Inr i0, u1)"
    and "parseInput A c1 u1 = (Inr i1, u2)"
    and "beforeHandle A i1 u2 = (Inr i2, u3)"
    and "handle A i2 u3 = (Inr out, u4)"
  shows "run_try P A w0
           = bind (invoke (AfterHandle i2 out) (afterHandle A i2 out)) check_output
               (ws\<lparr>trace := trace ws @ [Log ''request started''
                      (JObj [(''method'', JStr (request_method (ctx w0))), (''path'', JStr (request_path (ctx w0)))]),
                    ParseInput, ParseInput, BeforeHandle i1, Handle i2],
                  user := u4, ctx := c1\<rparr>)"
  using assms start_ok(2) [OF assms(1)]
  by (simp add: run_try_def bind_def return_def log_def invoke_def)

lemma run_try_reaches_check:
  assumes "startServiceInstances (services A) w0 = (Inr (), ws)"
    and "validate P A (ctx w0) = (Inr None, c1)"
    and "parseInput A c1 (user ws) = (Inr i0, u1)"
    and "parseInput A c1 u1 = (Inr i1, u2)"
    and "beforeHandle A i1 u2 = (Inr i2, u3)"
    and "handle A i2 u3 = (Inr out, u4)"
    and "afterHandle A i2 out u4 = (Inr out', u5)"
  shows "run_try P A w0
           = check_output out'
               (ws\<lparr>trace := trace ws @ [Log ''request started''
                      (JObj [(''method'', JStr (request_method (ctx w0))), (''path'', JStr (request_path (ctx w0)))]),
                    ParseInput, ParseInput, BeforeHandle i1, Handle i2, AfterHandle i2 out],
                  user := u5, ctx := c1\<rparr>)"
  using assms(7) by (cases ws) (simp add: run_try_calls [OF assms(1-6)] bind_def invoke_def)

lemma run_success:
  assumes "fst (run_try P A w0) = Inr r"
  shows "response_status (ctx (snd (run P A w0))) = status r"
    and "response_body (ctx (snd (run P A w0))) = body r"
proof -
  obtain w where "run_try P A w0 = (Inr r, w)" using assms by (cases "run_try P A w0") auto
  then have "run_catch (run_try P A w0) = (r, w)" by (simp add: run_catch_def)
  then show "response_status (ctx (snd (run P A w0))) = status r"
    and "response_body (ctx (snd (run P A w0))) = body r"
    by (rule run_response)+
qed

lemma run_internal:
  assumes "fst (run_try P A w0) = Inl (JErr cls m)" and "cls = Error \<or> cls = TypeError"
  shows "response_status (ctx (snd (run P A w0))) = 500"
    and "response_body (ctx (snd (run P A w0))) = JObj [(''error'', JStr ''Internal'')]"
proof -
  obtain w where "run_try P A w0 = (Inl (JErr cls m), w)"
    using assms(1) by (cases "run_try P A w0") auto
  with assms(2) have "run_catch (run_try P A w0)
      = (\<lparr>status = 500, body = JObj [(''error'', JStr ''Internal'')]\<rparr>,
         log ''error'' (JObj [(''error'', JErr cls m)]) w)"
    by (auto simp: run_catch_def handleError_def)
  from run_response(1,2) [OF this]
  show "response_status (ctx (snd (run P A w0))) = 500"
    and "response_body (ctx (snd (run P A w0))) = JObj [(''error'', JStr ''Internal'')]"
    by simp_all
qed

subsection \<open>Unfolding the model and the example on concrete input\<close>

lemmas run_defs = run_def run_try_def run_catch_def run_finally_def bind_def return_def throw_def
  invoke_def log_def startServiceInstances_def stopServiceInstances_def forEachService_def
  validate_def ValidatorBase_validate_def handleResult_def respond_def check_output_def
  handleError_def Action_def ensureValidatorsCreated_def Action_schemas_def get_prop_def

lemmas app_defs = configure_def typeCheckServiceFactories_def typeCheck_callback_def
  forEachServiceFactory_def createKoa_def startServiceFactories_def stopServiceFactories_def
  startServer_def stopServer_def Application_start_def Application_stop_def new_Application_def
  Application_def ServiceFactory_def configured_def started_def demo_platform_def
  bind_def return_def throw_def invoke_def

lemmas demo_defs = demo_platform_def demo_ajv_def check_type_def numeric_looking_def digits_value_def
  type_error_def typed_property_schema_def Service_def user_dto_def GetUserAction_def
  get_user_def request_def

subsection \<open>The error taxonomy\<close>

text \<open>
  C5. \<open>Action.handleError\<close> maps a \<open>NotFoundError\<close> to 404 \<open>{error: "NotFound"}\<close>, an
  \<open>UnauthorizedError\<close> to 401 \<open>{error: "Unauthorized"}\<close>, a \<open>ForbiddenError\<close> to 403
  \<open>{error: "Forbidden"}\<close>, a \<open>ConflictError\<close> to 409 \<open>{error: "Conflict"}\<close>, logging nothing;
  any other thrown value gives 500 \<open>{error: "Internal"}\<close>, the value itself is passed to
  the log sink (as \<open>{error}\<close> under the message \<open>error\<close>), and the response body is the
  same constant whatever the error was.
\<close>

theorem handleError_taxonomy:
  "handleError (JErr NotFoundError m) w
     = (\<lparr>status = 404, body = JObj [(''error'', JStr ''NotFound'')]\<rparr>, w)
   \<and> handleError (JErr UnauthorizedError m) w
     = (\<lparr>status = 401, body = JObj [(''error'', JStr ''Unauthorized'')]\<rparr>, w)
   \<and> handleError (JErr ForbiddenError m) w
     = (\<lparr>status = 403, body = JObj [(''error'', JStr ''Forbidden'')]\<rparr>, w)
   \<and> handleError (JErr ConflictError m) w
     = (\<lparr>status = 409, body = JObj [(''error'', JStr ''Conflict'')]\<rparr>, w)
   \<and> ((\<forall>c \<in> {NotFoundError, UnauthorizedError, ForbiddenError, ConflictError}. \<not> instanceof e c)
        \<longrightarrow> handleError e w
              = (\<lparr>status = 500, body = JObj [(''error'', JStr ''Internal'')]\<rparr>,
                 w\<lparr>trace := trace w @ [Log ''error'' (JObj [(''error'', e)])]\<rparr>))"
  by (simp add: handleError_def log_def)

theorem handleError_taxonomy_witness:
  "\<not> instanceof (JErr TypeError ''x is not a function'') NotFoundError
   \<and> \<not> instanceof (JErr TypeError ''x is not a function'') UnauthorizedError
   \<and> \<not> instanceof (JErr TypeError ''x is not a function'') ForbiddenError
   \<and> \<not> instanceof (JErr TypeError ''x is not a function'') ConflictError
   \<and> handleError (JErr TypeError ''x is not a function'') \<lparr>trace = [], user = ()\<rparr>
       = (\<lparr>status = 500, body = JObj [(''error'', JStr ''Internal'')]\<rparr>,
          \<lparr>trace = [Log ''error'' (JObj [(''error'', JErr TypeError ''x is not a function'')])],
           user = ()\<rparr>)"
  using handleError_taxonomy [of "''m''" "\<lparr>trace = [], user = ()\<rparr>" "JErr TypeError ''x is not a function''"]
  by simp

subsection \<open>The lifecycle of the services\<close>




subsection \<open>Validation\<close>






lemma own_validators_kept: "own_validators cls \<Longrightarrow> own_validators (ensureValidatorsCreated cls)"
  by (auto simp: own_validators_def ensureValidatorsCreated_def split: option.splits)



subsection \<open>Coercion\<close>

lemma get_prop_Cons: "get_prop ((k', v) # fs) k = (if k = k' then v else get_prop fs k)"
  by (simp add: get_prop_def)

lemma check_fields_strict:
  assumes "get_prop props k = JObj p" and "get_prop p ''type'' = JStr ''integer''"
    and "get_prop fs k = JStr s"
  shows "fst (check_fields False props fs) \<noteq> []"
  using assms(3)
proof (induction fs)
  case Nil
  then show ?case by (simp add: get_prop_def)
next
  case (Cons a fs)
  obtain k' v where a: "a = (k', v)" by (cases a)
  obtain errs fs' where r: "check_fields False props fs = (errs, fs')"
    by (cases "check_fields False props fs")
  show ?case
  proof (cases "k = k'")
    case True
    with Cons.prems a have "v = JStr s" by (simp add: get_prop_Cons)
    with True a r assms(1,2) show ?thesis by (simp add: check_type_def)
  next
    case False
    with Cons.prems a have "get_prop fs k = JStr s" by (simp add: get_prop_Cons)
    with Cons.IH r have "errs \<noteq> []" by simp
    with a r show ?thesis by (auto split: jsval.splits option.splits)
  qed
qed

lemma demo_ajv_strict: "ajv_strict demo_ajv"
  unfolding ajv_strict_def
proof (intro allI impI)
  fix opts :: ajv_options and schema v k
  assume a: "\<not> coerceTypes opts \<and> integer_property schema k \<and> string_property v k"
  then obtain sch props p where
    s: "schema = JObj sch" "get_prop sch ''properties'' = JObj props"
       "get_prop props k = JObj p" "get_prop p ''type'' = JStr ''integer''"
    by (auto simp: integer_property_def split: jsval.splits)
  from a obtain fs str where v: "v = JObj fs" "get_prop fs k = JStr str"
    by (auto simp: string_property_def split: jsval.splits)
  from check_fields_strict [OF s(3,4) v(2)] a s v
  show "\<not> valid (demo_ajv opts schema v)"
    by (auto simp: demo_ajv_def split: prod.splits)
qed

lemma demo_ajv_coercing: "ajv_coercing demo_ajv"
  by (auto simp: ajv_coercing_def demo_ajv_def typed_property_schema_def get_prop_def check_type_def)

lemma validate_body_first:
  assumes "ctor A = ensureValidatorsCreated \<lparr>schemas = Some s, validators = None\<rparr>"
    and "truthy (body_schema s)"
    and "\<not> valid (ajv_compile P (createAjv (BodyValidator (body_schema s))) (body_schema s) (request_body c))"
  shows "\<exists>errs c'. validate P A c
           = (Inr (Some \<lparr>status = 400,
                         body = JObj [(''error'', JStr ''Validation''), (''errors'', errs)]\<rparr>), c')"
  using assms
  by (simp add: validate_def ensureValidatorsCreated_def ValidatorBase_validate_def Let_def)

text \<open>
  C4. \<open>BodyValidator\<close> compiles its schema with coercion off, \<open>ParamsValidator\<close> and
  \<open>QueryValidator\<close> with coercion on. With an engine that behaves as Ajv documents:
  validation fails with the 400 result for every body that holds a string where the body
  schema declares an integer, numeric-looking or not; and validation passes for params
  and for a query that hold a numeric-looking string where an integer is declared, or
  \<open>true\<close> or \<open>false\<close> where a boolean is declared.
\<close>

theorem validators_coercion:
  assumes "ajv_strict (ajv_compile P)" and "ajv_coercing (ajv_compile P)"
  shows "\<not> coerceTypes (createAjv (BodyValidator schema))
       \<and> coerceTypes (createAjv (ParamsValidator schema))
       \<and> coerceTypes (createAjv (QueryValidator schema))
       \<and> (ctor A = ensureValidatorsCreated \<lparr>schemas = Some s, validators = None\<rparr>
            \<and> integer_property (body_schema s) k \<and> string_property (request_body c) k \<longrightarrow>
          (\<exists>errs c1. validate P A c
             = (Inr (Some \<lparr>status = 400,
                           body = JObj [(''error'', JStr ''Validation''), (''errors'', errs)]\<rparr>), c1)))
       \<and> (ctor A' = ensureValidatorsCreated
              \<lparr>schemas = Some (Action_schemas\<lparr>params_schema := typed_property_schema k' ty'\<rparr>),
               validators = None\<rparr>
            \<and> coercible ty' str' \<and> params c' = JObj [(k', JStr str')] \<longrightarrow>
          fst (validate P A' c') = Inr None)
       \<and> (ctor A'' = ensureValidatorsCreated
              \<lparr>schemas = Some (Action_schemas\<lparr>query_schema := typed_property_schema k'' ty''\<rparr>),
               validators = None\<rparr>
            \<and> coercible ty'' str'' \<and> query c'' = JObj [(k'', JStr str'')] \<longrightarrow>
          fst (validate P A'' c'') = Inr None)"
proof (intro conjI impI)
  show "\<not> coerceTypes (createAjv (BodyValidator schema))"
    and "coerceTypes (createAjv (ParamsValidator schema))"
    and "coerceTypes (createAjv (QueryValidator schema))" by simp_all
next
  assume a: "ctor A = ensureValidatorsCreated \<lparr>schemas = Some s, validators = None\<rparr>
            \<and> integer_property (body_schema s) k \<and> string_property (request_body c) k"
  then have t: "truthy (body_schema s)"
    by (auto simp: integer_property_def split: jsval.splits)
  have strict: "\<not> coerceTypes opts \<Longrightarrow> integer_property sch k \<Longrightarrow> string_property v k
      \<Longrightarrow> \<not> valid (ajv_compile P opts sch v)" for opts sch v
    using assms(1) unfolding ajv_strict_def by blast
  from a have "\<not> valid (ajv_compile P (createAjv (BodyValidator (body_schema s)))
      (body_schema s) (request_body c))"
    by (intro strict) simp_all
  with a t show "\<exists>errs c1. validate P A c
             = (Inr (Some \<lparr>status = 400,
                           body = JObj [(''error'', JStr ''Validation''), (''errors'', errs)]\<rparr>), c1)"
    by (intro validate_body_first) simp_all
next
  assume a: "ctor A' = ensureValidatorsCreated
              \<lparr>schemas = Some (Action_schemas\<lparr>params_schema := typed_property_schema k' ty'\<rparr>),
               validators = None\<rparr>
            \<and> coercible ty' str' \<and> params c' = JObj [(k', JStr str')]"
  with assms(2) have "valid (ajv_compile P (createAjv (ParamsValidator (typed_property_schema k' ty')))
      (typed_property_schema k' ty') (params c'))"
    by (auto simp: ajv_coercing_def coercible_def)
  with a show "fst (validate P A' c') = Inr None"
    by (simp add: validate_def ensureValidatorsCreated_def ValidatorBase_validate_def Let_def
        Action_schemas_def typed_property_schema_def)
next
  assume a: "ctor A'' = ensureValidatorsCreated
              \<lparr>schemas = Some (Action_schemas\<lparr>query_schema := typed_property_schema k'' ty''\<rparr>),
               validators = None\<rparr>
            \<and> coercible ty'' str'' \<and> query c'' = JObj [(k'', JStr str'')]"
  with assms(2) have "valid (ajv_compile P (createAjv (QueryValidator (typed_property_schema k'' ty'')))
      (typed_property_schema k'' ty'') (query c''))"
    by (auto simp: ajv_coercing_def coercible_def)
  with a show "fst (validate P A'' c'') = Inr None"
    by (simp add: validate_def ensureValidatorsCreated_def ValidatorBase_validate_def Let_def
        Action_schemas_def typed_property_schema_def)
qed

theorem validators_coercion_witness:
  "ajv_strict (ajv_compile demo_platform)
   \<and> ajv_coercing (ajv_compile demo_platform)
   \<and> ctor CreateUserAction = ensureValidatorsCreated
        \<lparr>schemas = Some (Action_schemas\<lparr>body_schema := typed_property_schema ''id'' ''integer''\<rparr>),
         validators = None\<rparr>
   \<and> integer_property (typed_property_schema ''id'' ''integer'') ''id''
   \<and> string_property (JObj [(''id'', JStr ''1''), (''username'', JStr ''New user'')]) ''id''
   \<and> numeric_looking ''1''
   \<and> validate demo_platform CreateUserAction
        (ctx (post_user (JObj [(''id'', JStr ''1''), (''username'', JStr ''New user'')])))
     = (Inr (Some \<lparr>status = 400,
                   body = JObj [(''error'', JStr ''Validation''),
                                (''errors'', JArr [type_error ''id'' ''integer''])]\<rparr>),
        ctx (post_user (JObj [(''id'', JStr ''1''), (''username'', JStr ''New user'')])))
   \<and> ctor (GetUserAction (\<lambda>input. return user_dto)) = ensureValidatorsCreated
        \<lparr>schemas = Some (Action_schemas\<lparr>params_schema := typed_property_schema ''id'' ''integer''\<rparr>),
         validators = None\<rparr>
   \<and> coercible ''integer'' ''1''
   \<and> params (ctx (get_user ''1'')) = JObj [(''id'', JStr ''1'')]
   \<and> fst (validate demo_platform (GetUserAction (\<lambda>input. return user_dto)) (ctx (get_user ''1'')))
     = Inr None
   \<and> ctor ListUsersAction = ensureValidatorsCreated
        \<lparr>schemas = Some (Action_schemas\<lparr>query_schema := typed_property_schema ''withRoles'' ''boolean''\<rparr>),
         validators = None\<rparr>
   \<and> coercible ''boolean'' ''true''
   \<and> query (ctx (list_users (JObj [(''withRoles'', JStr ''true'')]))) = JObj [(''withRoles'', JStr ''true'')]
   \<and> fst (validate demo_platform ListUsersAction (ctx (list_users (JObj [(''withRoles'', JStr ''true'')]))))
     = Inr None"
proof -
  have s: "ajv_strict (ajv_compile demo_platform)" and c: "ajv_coercing (ajv_compile demo_platform)"
    by (simp_all add: demo_platform_def demo_ajv_strict demo_ajv_coercing)
  from validators_coercion [OF s c, of "JObj []" CreateUserAction
      "Action_schemas\<lparr>body_schema := typed_property_schema ''id'' ''integer''\<rparr>" "''id''"
      "ctx (post_user (JObj [(''id'', JStr ''1''), (''username'', JStr ''New user'')]))"
      "GetUserAction (\<lambda>input. return user_dto)" "''id''" "''integer''" "''1''" "ctx (get_user ''1'')"
      ListUsersAction "''withRoles''" "''boolean''" "''true''"
      "ctx (list_users (JObj [(''withRoles'', JStr ''true'')]))"] s c
  show ?thesis
    by (simp add: run_defs demo_defs CreateUserAction_def ListUsersAction_def post_user_def
        list_users_def coercible_def integer_property_def string_property_def)
qed

subsection \<open>The handling pipeline\<close>

text \<open>
  C9. Once validation has passed, \<open>run\<close> calls \<open>parseInput\<close> twice. The first result
  \<open>i0\<close> is used nowhere; \<open>beforeHandle\<close> receives the second result \<open>i1\<close>, computed in the
  state the first call left, and \<open>handle\<close> receives what \<open>beforeHandle\<close> returned. These are
  all the pipeline calls of the request.
\<close>

theorem run_parses_twice:
  assumes "startServiceInstances (services A) w0 = (Inr (), ws)"
    and "validate P A (ctx w0) = (Inr None, c1)"
    and "parseInput A c1 (user ws) = (Inr i0, u1)"
    and "parseInput A c1 u1 = (Inr i1, u2)"
    and "beforeHandle A i1 u2 = (Inr i2, u3)"
    and "handle A i2 u3 = (Inr out, u4)"
  shows "filter pipeline_call (trace (snd (run P A w0)))
           = filter pipeline_call (trace w0)
             @ [ParseInput, ParseInput, BeforeHandle i1, Handle i2, AfterHandle i2 out]"
proof -
  let ?w = "ws\<lparr>trace := trace ws @ [Log ''request started''
                      (JObj [(''method'', JStr (request_method (ctx w0))), (''path'', JStr (request_path (ctx w0)))]),
                    ParseInput, ParseInput, BeforeHandle i1, Handle i2],
                  user := u4, ctx := c1\<rparr>"
  have "trace (snd (run_try P A w0)) = trace ?w @ [AfterHandle i2 out]"
    by (simp add: run_try_calls [OF assms] bind_def invoke_def check_output_state
        split: prod.splits sum.splits)
  moreover obtain r w where c: "run_catch (run_try P A w0) = (r, w)"
    by (cases "run_catch (run_try P A w0)")
  moreover from run_catch_trace [of "run_try P A w0"] c obtain evs where
    "trace w = trace (snd (run_try P A w0)) @ evs" "\<forall>e \<in> set evs. \<not> pipeline_call e" by auto
  moreover have "filter pipeline_call (map (\<lambda>(n, s). ServiceStart n) (services A)) = []"
    by (auto simp: filter_empty_conv)
  ultimately show ?thesis
    using run_response(3) [OF c] start_ok(1) [OF assms(1)] by (simp add: filter_empty_conv)
qed

theorem run_parses_twice_witness:
  "startServiceInstances (services CountingAction) (get_user ''1'')
     = (Inr (), (get_user ''1'')\<lparr>trace := [ServiceStart ''db'', ServiceStart ''users'']\<rparr>)
   \<and> validate demo_platform CountingAction (ctx (get_user ''1''))
     = (Inr None, (ctx (get_user ''1''))\<lparr>params := JObj [(''id'', JNum 1)]\<rparr>)
   \<and> parseInput CountingAction ((ctx (get_user ''1''))\<lparr>params := JObj [(''id'', JNum 1)]\<rparr>) 0
     = (Inr (JNum 0), 1)
   \<and> parseInput CountingAction ((ctx (get_user ''1''))\<lparr>params := JObj [(''id'', JNum 1)]\<rparr>) 1
     = (Inr (JNum 1), 2)
   \<and> beforeHandle CountingAction (JNum 1) 2 = (Inr (JNum 1), 2)
   \<and> handle CountingAction (JNum 1) 2 = (Inr (JObj [(''parsed'', JNum 1)]), 2)
   \<and> filter pipeline_call (trace (snd (run demo_platform CountingAction (get_user ''1''))))
     = [ParseInput, ParseInput, BeforeHandle (JNum 1), Handle (JNum 1),
        AfterHandle (JNum 1) (JObj [(''parsed'', JNum 1)])]
   \<and> response_body (ctx (snd (run demo_platform CountingAction (get_user ''1''))))
     = JObj [(''parsed'', JNum 1)]
   \<and> user (snd (run demo_platform CountingAction (get_user ''1''))) = 2"
  using run_parses_twice [of CountingAction "get_user ''1''"
      "(get_user ''1'')\<lparr>trace := [ServiceStart ''db'', ServiceStart ''users'']\<rparr>"
      demo_platform "(ctx (get_user ''1''))\<lparr>params := JObj [(''id'', JNum 1)]\<rparr>"
      "JNum 0" 1 "JNum 1" 2 "JNum 1" 2 "JObj [(''parsed'', JNum 1)]" 2]
  by (simp add: run_defs demo_defs CountingAction_def)

subsection \<open>The plain-DTO check\<close>

lemma isPlainDto_throws:
  "(\<forall>e. isPlainDto v = Inl e \<longrightarrow> e = JErr TypeError ''Cannot read property toJSON of null'')"
  "(\<forall>e. every_isPlainDto xs = Inl e \<longrightarrow> e = JErr TypeError ''Cannot read property toJSON of null'')"
  by (induction v and xs rule: isPlainDto_every_isPlainDto.induct)
     (auto split: sum.splits if_splits)

lemma plain_object_isPlainDto:
  "plain_object v \<longrightarrow> truthy v \<and> isPlainDto v = Inr True"
  "plain_objects xs \<longrightarrow> every_isPlainDto xs = Inr True"
  by (induction v and xs rule: isPlainDto_every_isPlainDto.induct) auto

lemma custom_toJSON_isPlainDto:
  "custom_toJSON v \<longrightarrow> truthy v \<and>
     (isPlainDto v = Inr False
      \<or> isPlainDto v = Inl (JErr TypeError ''Cannot read property toJSON of null''))"
  "some_custom_toJSON xs \<longrightarrow>
     (every_isPlainDto xs = Inr False
      \<or> every_isPlainDto xs = Inl (JErr TypeError ''Cannot read property toJSON of null''))"
proof (induction v and xs rule: isPlainDto_every_isPlainDto.induct)
  case (12 x xs)
  show ?case
  proof (cases "isPlainDto x")
    case (Inl e)
    with isPlainDto_throws(1) [of x] show ?thesis by simp
  next
    case (Inr plain)
    with 12 show ?thesis by (cases plain) auto
  qed
qed auto

lemma every_with_null:
  "JNull \<in> set xs \<Longrightarrow>
     every_isPlainDto xs = Inr False
     \<or> every_isPlainDto xs = Inl (JErr TypeError ''Cannot read property toJSON of null'')"
proof (induction xs)
  case Nil
  then show ?case by simp
next
  case (Cons x xs)
  show ?case
  proof (cases "isPlainDto x")
    case (Inl e)
    with isPlainDto_throws(1) [of x] show ?thesis by simp
  next
    case (Inr plain)
    with Cons show ?thesis by (cases plain) auto
  qed
qed

lemma every_null_first:
  "every_isPlainDto pre = Inr True \<Longrightarrow>
     every_isPlainDto (pre @ JNull # post)
       = Inl (JErr TypeError ''Cannot read property toJSON of null'')"
  by (induction pre) (auto split: sum.splits if_splits)

lemma check_output_rejected:
  assumes "truthy v"
    and "isPlainDto v = Inr False
         \<or> isPlainDto v = Inl (JErr TypeError ''Cannot read property toJSON of null'')"
  shows "fst (check_output v w) = Inl (JErr Error ''always return plain objects (DTOs)'')
         \<or> fst (check_output v w) = Inl (JErr TypeError ''Cannot read property toJSON of null'')"
  using assms by (auto simp: check_output_def throw_def)

text \<open>
  C7. When the services start, validation passes, both \<open>parseInput\<close> calls and
  \<open>beforeHandle\<close> return, \<open>handle\<close> returns a plain data object (an object without a
  \<open>toJSON\<close>, or an array of such) and \<open>afterHandle\<close> hands that object on, the response has
  status 200 and the returned object as its body.
\<close>

theorem run_plain_object:
  assumes "startServiceInstances (services A) w0 = (Inr (), ws)"
    and "validate P A (ctx w0) = (Inr None, c1)"
    and "parseInput A c1 (user ws) = (Inr i0, u1)"
    and "parseInput A c1 u1 = (Inr i1, u2)"
    and "beforeHandle A i1 u2 = (Inr i2, u3)"
    and "handle A i2 u3 = (Inr out, u4)"
    and "afterHandle A i2 out u4 = (Inr out, u5)"
    and "plain_object out"
  shows "response_status (ctx (snd (run P A w0))) = 200
       \<and> response_body (ctx (snd (run P A w0))) = out"
proof -
  from assms(8) plain_object_isPlainDto(1) [of out]
  have "truthy out" "isPlainDto out = Inr True" by simp_all
  then have "fst (run_try P A w0) = Inr \<lparr>status = 200, body = out\<rparr>"
    by (simp add: run_try_reaches_check [OF assms(1-7)] check_output_def return_def)
  from run_success [OF this] show ?thesis by simp
qed

theorem run_plain_object_witness:
  "startServiceInstances (services (GetUserAction (\<lambda>input. return user_dto))) (get_user ''1'')
     = (Inr (), (get_user ''1'')\<lparr>trace := [ServiceStart ''db'', ServiceStart ''users'']\<rparr>)
   \<and> validate demo_platform (GetUserAction (\<lambda>input. return user_dto)) (ctx (get_user ''1''))
     = (Inr None, (ctx (get_user ''1''))\<lparr>params := JObj [(''id'', JNum 1)]\<rparr>)
   \<and> parseInput (GetUserAction (\<lambda>input. return user_dto))
        ((ctx (get_user ''1''))\<lparr>params := JObj [(''id'', JNum 1)]\<rparr>) 0 = (Inr (JObj []), 0)
   \<and> beforeHandle (GetUserAction (\<lambda>input. return user_dto)) (JObj []) 0 = (Inr (JObj []), 0)
   \<and> handle (GetUserAction (\<lambda>input. return user_dto)) (JObj []) 0 = (Inr user_dto, 0)
   \<and> afterHandle (GetUserAction (\<lambda>input. return user_dto)) (JObj []) user_dto 0 = (Inr user_dto, 0)
   \<and> plain_object user_dto
   \<and> response_status (ctx (snd (run demo_platform (GetUserAction (\<lambda>input. return user_dto))
        (get_user ''1'')))) = 200
   \<and> response_body (ctx (snd (run demo_platform (GetUserAction (\<lambda>input. return user_dto))
        (get_user ''1'')))) = JObj [(''id'', JNum 1), (''username'', JStr ''jakso'')]"
  using run_plain_object [of "GetUserAction (\<lambda>input. return user_dto)" "get_user ''1''"
      "(get_user ''1'')\<lparr>trace := [ServiceStart ''db'', ServiceStart ''users'']\<rparr>"
      demo_platform "(ctx (get_user ''1''))\<lparr>params := JObj [(''id'', JNum 1)]\<rparr>"
      "JObj []" 0 "JObj []" 0 "JObj []" 0 user_dto 0 0]
  by (simp add: run_defs demo_defs)

text \<open>
  C8. When the output of the pipeline, after \<open>afterHandle\<close>, is an object with a custom
  \<open>toJSON\<close> or an array containing such an object, the \<open>try\<close> block of \<open>run\<close> throws (the
  error of the plain-DTO check, or the \<open>TypeError\<close> of a \<open>null\<close> met earlier in the array)
  and the response is 500 \<open>{error: "Internal"}\<close>.
\<close>

theorem run_custom_toJSON:
  assumes "startServiceInstances (services A) w0 = (Inr (), ws)"
    and "validate P A (ctx w0) = (Inr None, c1)"
    and "parseInput A c1 (user ws) = (Inr i0, u1)"
    and "parseInput A c1 u1 = (Inr i1, u2)"
    and "beforeHandle A i1 u2 = (Inr i2, u3)"
    and "handle A i2 u3 = (Inr out, u4)"
    and "afterHandle A i2 out u4 = (Inr out', u5)"
    and "custom_toJSON out'"
  shows "(fst (run_try P A w0) = Inl (JErr Error ''always return plain objects (DTOs)'')
          \<or> fst (run_try P A w0) = Inl (JErr TypeError ''Cannot read property toJSON of null''))
       \<and> response_status (ctx (snd (run P A w0))) = 500
       \<and> response_body (ctx (snd (run P A w0))) = JObj [(''error'', JStr ''Internal'')]"
proof -
  let ?w = "ws\<lparr>trace := trace ws @ [Log ''request started''
                      (JObj [(''method'', JStr (request_method (ctx w0))), (''path'', JStr (request_path (ctx w0)))]),
                    ParseInput, ParseInput, BeforeHandle i1, Handle i2, AfterHandle i2 out],
                  user := u5, ctx := c1\<rparr>"
  from assms(8) custom_toJSON_isPlainDto(1) [of out']
  have "truthy out'" and "isPlainDto out' = Inr False
      \<or> isPlainDto out' = Inl (JErr TypeError ''Cannot read property toJSON of null'')"
    by simp_all
  from check_output_rejected [OF this, of ?w]
  have t: "fst (run_try P A w0) = Inl (JErr Error ''always return plain objects (DTOs)'')
          \<or> fst (run_try P A w0) = Inl (JErr TypeError ''Cannot read property toJSON of null'')"
    by (simp add: run_try_reaches_check [OF assms(1-7)])
  then show ?thesis
  proof
    assume e: "fst (run_try P A w0) = Inl (JErr Error ''always return plain objects (DTOs)'')"
    from run_internal [OF e] t show ?thesis by simp
  next
    assume e: "fst (run_try P A w0) = Inl (JErr TypeError ''Cannot read property toJSON of null'')"
    from run_internal [OF e] t show ?thesis by simp
  qed
qed

theorem run_custom_toJSON_witness:
  "startServiceInstances (services (GetUserAction (\<lambda>input. return user_model))) (get_user ''1'')
     = (Inr (), (get_user ''1'')\<lparr>trace := [ServiceStart ''db'', ServiceStart ''users'']\<rparr>)
   \<and> validate demo_platform (GetUserAction (\<lambda>input. return user_model)) (ctx (get_user ''1''))
     = (Inr None, (ctx (get_user ''1''))\<lparr>params := JObj [(''id'', JNum 1)]\<rparr>)
   \<and> parseInput (GetUserAction (\<lambda>input. return user_model))
        ((ctx (get_user ''1''))\<lparr>params := JObj [(''id'', JNum 1)]\<rparr>) 0 = (Inr (JObj []), 0)
   \<and> beforeHandle (GetUserAction (\<lambda>input. return user_model)) (JObj []) 0 = (Inr (JObj []), 0)
   \<and> handle (GetUserAction (\<lambda>input. return user_model)) (JObj []) 0 = (Inr user_model, 0)
   \<and> afterHandle (GetUserAction (\<lambda>input. return user_model)) (JObj []) user_model 0
     = (Inr user_model, 0)
   \<and> custom_toJSON user_model
   \<and> fst (run_try demo_platform (GetUserAction (\<lambda>input. return user_model)) (get_user ''1''))
     = Inl (JErr Error ''always return plain objects (DTOs)'')
   \<and> response_status (ctx (snd (run demo_platform (GetUserAction (\<lambda>input. return user_model))
        (get_user ''1'')))) = 500
   \<and> response_body (ctx (snd (run demo_platform (GetUserAction (\<lambda>input. return user_model))
        (get_user ''1'')))) = JObj [(''error'', JStr ''Internal'')]"
  using run_custom_toJSON [of "GetUserAction (\<lambda>input. return user_model)" "get_user ''1''"
      "(get_user ''1'')\<lparr>trace := [ServiceStart ''db'', ServiceStart ''users'']\<rparr>"
      demo_platform "(ctx (get_user ''1''))\<lparr>params := JObj [(''id'', JNum 1)]\<rparr>"
      "JObj []" 0 "JObj []" 0 "JObj []" 0 user_model 0 user_model 0]
  by (simp add: run_defs demo_defs user_model_def)

text \<open>
  C10 (amended). When the output of the pipeline is an array containing \<open>null\<close>, the
  response is 500 \<open>{error: "Internal"}\<close>; the check throws a \<open>TypeError\<close> whenever the
  elements before the first \<open>null\<close> pass it. A top-level \<open>null\<close> is not checked and gives
  the 200 result.
\<close>

theorem run_array_with_null:
  assumes "startServiceInstances (services A) w0 = (Inr (), ws)"
    and "validate P A (ctx w0) = (Inr None, c1)"
    and "parseInput A c1 (user ws) = (Inr i0, u1)"
    and "parseInput A c1 u1 = (Inr i1, u2)"
    and "beforeHandle A i1 u2 = (Inr i2, u3)"
    and "handle A i2 u3 = (Inr out, u4)"
    and "afterHandle A i2 out u4 = (Inr (JArr xs), u5)"
    and "JNull \<in> set xs"
  shows "response_status (ctx (snd (run P A w0))) = 500
       \<and> response_body (ctx (snd (run P A w0))) = JObj [(''error'', JStr ''Internal'')]
       \<and> ((\<exists>pre post. xs = pre @ JNull # post \<and> every_isPlainDto pre = Inr True) \<longrightarrow>
            fst (run_try P A w0) = Inl (JErr TypeError ''Cannot read property toJSON of null''))
       \<and> check_output JNull w = (Inr \<lparr>status = 200, body = JNull\<rparr>, w)"
proof -
  let ?w = "ws\<lparr>trace := trace ws @ [Log ''request started''
                      (JObj [(''method'', JStr (request_method (ctx w0))), (''path'', JStr (request_path (ctx w0)))]),
                    ParseInput, ParseInput, BeforeHandle i1, Handle i2, AfterHandle i2 out],
                  user := u5, ctx := c1\<rparr>"
  have r: "run_try P A w0 = check_output (JArr xs) ?w"
    by (rule run_try_reaches_check [OF assms(1-7)])
  from every_with_null [OF assms(8)]
  have "isPlainDto (JArr xs) = Inr False
      \<or> isPlainDto (JArr xs) = Inl (JErr TypeError ''Cannot read property toJSON of null'')"
    by simp
  from check_output_rejected [OF _ this, of ?w] r
  have t: "fst (run_try P A w0) = Inl (JErr Error ''always return plain objects (DTOs)'')
          \<or> fst (run_try P A w0) = Inl (JErr TypeError ''Cannot read property toJSON of null'')"
    by simp
  have resp: "response_status (ctx (snd (run P A w0))) = 500
       \<and> response_body (ctx (snd (run P A w0))) = JObj [(''error'', JStr ''Internal'')]"
    using t run_internal [of P A w0] by auto
  have first: "(\<exists>pre post. xs = pre @ JNull # post \<and> every_isPlainDto pre = Inr True) \<longrightarrow>
            fst (run_try P A w0) = Inl (JErr TypeError ''Cannot read property toJSON of null'')"
    using r by (auto simp: check_output_def throw_def every_null_first)
  have "check_output JNull w = (Inr \<lparr>status = 200, body = JNull\<rparr>, w)"
    by (simp add: check_output_def return_def)
  with resp first show ?thesis by simp
qed


theorem run_array_with_null_witness:
  "startServiceInstances (services (GetUserAction (\<lambda>input. return (JArr [user_dto, JNull]))))
        (get_user ''1'')
     = (Inr (), (get_user ''1'')\<lparr>trace := [ServiceStart ''db'', ServiceStart ''users'']\<rparr>)
   \<and> validate demo_platform (GetUserAction (\<lambda>input. return (JArr [user_dto, JNull])))
        (ctx (get_user ''1''))
     = (Inr None, (ctx (get_user ''1''))\<lparr>params := JObj [(''id'', JNum 1)]\<rparr>)
   \<and> parseInput (GetUserAction (\<lambda>input. return (JArr [user_dto, JNull])))
        ((ctx (get_user ''1''))\<lparr>params := JObj [(''id'', JNum 1)]\<rparr>) 0 = (Inr (JObj []), 0)
   \<and> beforeHandle (GetUserAction (\<lambda>input. return (JArr [user_dto, JNull]))) (JObj []) 0
     = (Inr (JObj []), 0)
   \<and> handle (GetUserAction (\<lambda>input. return (JArr [user_dto, JNull]))) (JObj []) 0
     = (Inr (JArr [user_dto, JNull]), 0)
   \<and> afterHandle (GetUserAction (\<lambda>input. return (JArr [user_dto, JNull]))) (JObj [])
        (JArr [user_dto, JNull]) 0
     = (Inr (JArr [user_dto, JNull]), 0)
   \<and> JNull \<in> set [user_dto, JNull]
   \<and> [user_dto, JNull] = [user_dto] @ JNull # []
   \<and> every_isPlainDto [user_dto] = Inr True
   \<and> response_status (ctx (snd (run demo_platform
        (GetUserAction (\<lambda>input. return (JArr [user_dto, JNull]))) (get_user ''1'')))) = 500
   \<and> response_body (ctx (snd (run demo_platform
        (GetUserAction (\<lambda>input. return (JArr [user_dto, JNull]))) (get_user ''1''))))
     = JObj [(''error'', JStr ''Internal'')]
   \<and> fst (run_try demo_platform (GetUserAction (\<lambda>input. return (JArr [user_dto, JNull])))
        (get_user ''1''))
     = Inl (JErr TypeError ''Cannot read property toJSON of null'')"
  using run_array_with_null [of "GetUserAction (\<lambda>input. return (JArr [user_dto, JNull]))"
      "get_user ''1''"
      "(get_user ''1'')\<lparr>trace := [ServiceStart ''db'', ServiceStart ''users'']\<rparr>"
      demo_platform "(ctx (get_user ''1''))\<lparr>params := JObj [(''id'', JNum 1)]\<rparr>"
      "JObj []" 0 "JObj []" 0 "JObj []" 0 "JArr [user_dto, JNull]" 0 "[user_dto, JNull]" 0]
  by (simp add: run_defs demo_defs)

text \<open>
  The check does not throw a \<open>TypeError\<close> on every array that contains \<open>null\<close>: \<open>every\<close>
  stops at an earlier element with a \<open>toJSON\<close>, and \<open>run\<close> throws the error of the check.
\<close>

theorem isPlainDto_null_counterexample:
  "JNull \<in> set [user_model, JNull]
   \<and> isPlainDto (JArr [user_model, JNull]) = Inr False
   \<and> fst (run_try demo_platform (GetUserAction (\<lambda>input. return (JArr [user_model, JNull])))
        (get_user ''1''))
     = Inl (JErr Error ''always return plain objects (DTOs)'')"
  by (simp add: run_defs demo_defs user_model_def)

subsection \<open>Configuration, start and stop\<close>

text \<open>
  C1 (the code at a factories map with a value that is not a \<open>ServiceFactory\<close>).
  \<open>typeCheckServiceFactories\<close> never rejects, and the error its callback throws does not
  depend on the key. For the map \<open>{users: 42}\<close>, \<open>configure\<close> succeeds: the rejection of
  the loop is left unhandled, and it is a \<open>ReferenceError\<close> for \<open>name\<close>.
\<close>

theorem configure_ignores_typeCheck:
  "fst (typeCheckServiceFactories P w) = Inr ()
   \<and> typeCheck_callback P key factory = typeCheck_callback P key' factory
   \<and> configure demo_platform (Application [(''users'', NotServiceFactory (JNum 42))]) (new_Application 0)
       = (Inr (),
          \<lparr>trace = [AppHook ''createServiceFactories'',
                    UnhandledRejection (JErr ReferenceError ''name is not defined''),
                    AppHook ''registerRoutes'', AppHook ''beforeKoaConfigured'',
                    AppHook ''afterKoaBodyParserAdded'', AppHook ''afterKoaConfigured''],
           user = 0,
           serviceFactories = Some [(''users'', NotServiceFactory (JNum 42))],
           koa = Some [''bodyParser'', ''routes'', ''allowedMethods''],
           server = None\<rparr>)"
  by (simp add: app_defs split: prod.splits sum.splits)

lemma stop_factories_ok:
  assumes "\<forall>(n, f) \<in> set fs. \<exists>sf. f = IsServiceFactory sf \<and> (\<forall>u. fst (factory_stop sf u) = Inr ())"
  shows "\<exists>w'. forEachEntry fs (\<lambda>name factory.
                  case factory of
                    IsServiceFactory f \<Rightarrow> invoke (FactoryStop name) (factory_stop f)
                  | NotServiceFactory v \<Rightarrow> throw (JErr TypeError ''factory.stop is not a function'')) w
                = (Inr (), w')
              \<and> trace w' = trace w @ map (\<lambda>(n, f). FactoryStop n) fs
              \<and> server w' = server w \<and> serviceFactories w' = serviceFactories w"
  using assms
proof (induction fs arbitrary: w)
  case Nil
  show ?case by simp
next
  case (Cons a fs)
  obtain n f where a: "a = (n, f)" by (cases a)
  from Cons.prems a obtain sf where
    f: "f = IsServiceFactory sf" and ok: "fst (factory_stop sf (user w)) = Inr ()" by auto
  from ok obtain u' where "factory_stop sf (user w) = (Inr (), u')"
    by (cases "factory_stop sf (user w)") auto
  then have 1: "invoke (FactoryStop n) (factory_stop sf) w
      = (Inr (), w\<lparr>trace := trace w @ [FactoryStop n], user := u'\<rparr>)"
    by (simp add: invoke_def)
  from Cons.prems have
    "\<forall>(n, f) \<in> set fs. \<exists>sf. f = IsServiceFactory sf \<and> (\<forall>u. fst (factory_stop sf u) = Inr ())"
    by auto
  from Cons.IH [OF this, of "w\<lparr>trace := trace w @ [FactoryStop n], user := u'\<rparr>"] 1 a f
  show ?case by auto
qed

lemma stop_once:
  assumes "serviceFactories w = Some fs"
    and "\<forall>(n, f) \<in> set fs. \<exists>sf. f = IsServiceFactory sf \<and> (\<forall>u. fst (factory_stop sf u) = Inr ())"
  shows "\<exists>w'. Application_stop w = (Inr (), w')
              \<and> serviceFactories w' = Some fs
              \<and> server w' = map_option (\<lambda>srv. srv\<lparr>listening := False\<rparr>) (server w)
              \<and> filter server_close (trace w')
                  = filter server_close (trace w)
                    @ (case server w of None \<Rightarrow> [] | Some srv \<Rightarrow> [ServerClose (listening srv)])"
proof -
  define w1 where "w1 = (case server w of
      Some srv \<Rightarrow> w\<lparr>trace := trace w @ [ServerClose (listening srv)],
                    server := Some (srv\<lparr>listening := False\<rparr>)\<rparr>
    | None \<Rightarrow> w)"
  have 1: "serviceFactories w1 = Some fs"
    and 2: "server w1 = map_option (\<lambda>srv. srv\<lparr>listening := False\<rparr>) (server w)"
    and 3: "trace w1 = trace w @ (case server w of None \<Rightarrow> [] | Some srv \<Rightarrow> [ServerClose (listening srv)])"
    using assms(1) by (auto simp: w1_def split: option.splits)
  from stop_factories_ok [OF assms(2), of w1] obtain w' where
    s: "forEachEntry fs (\<lambda>name factory.
                  case factory of
                    IsServiceFactory f \<Rightarrow> invoke (FactoryStop name) (factory_stop f)
                  | NotServiceFactory v \<Rightarrow> throw (JErr TypeError ''factory.stop is not a function'')) w1
                = (Inr (), w')"
    and t: "trace w' = trace w1 @ map (\<lambda>(n, f). FactoryStop n) fs"
    and k: "server w' = server w1" "serviceFactories w' = serviceFactories w1" by blast
  have "filter server_close (map (\<lambda>(n, f). FactoryStop n) fs) = []"
    by (auto simp: filter_empty_conv)
  with t 3 have "filter server_close (trace w')
      = filter server_close (trace w)
        @ (case server w of None \<Rightarrow> [] | Some srv \<Rightarrow> [ServerClose (listening srv)])"
    by (simp split: option.splits)
  moreover have "Application_stop w = (Inr (), w')"
    using s 1 by (simp add: Application_stop_def bind_def stopServer_def return_def
        stopServiceFactories_def forEachServiceFactory_def w1_def split: option.splits)
  ultimately show ?thesis using 1 2 k by simp
qed

text \<open>
  C6 (amended). On a configured application whose factories' \<open>stop\<close> does not throw,
  two calls of \<open>stop\<close> in a row do not throw. \<open>stop\<close> never clears the \<open>server\<close> field:
  once the application was started, the second call closes the already closed server
  again; when it was never started, both calls skip the close.
\<close>

theorem stop_twice:
  assumes "serviceFactories w = Some fs"
    and "\<forall>(n, f) \<in> set fs. \<exists>sf. f = IsServiceFactory sf \<and> (\<forall>u. fst (factory_stop sf u) = Inr ())"
  shows "fst (Application_stop w) = Inr ()
       \<and> fst (Application_stop (snd (Application_stop w))) = Inr ()
       \<and> (server w = None \<longrightarrow>
            filter server_close (trace (snd (Application_stop (snd (Application_stop w)))))
              = filter server_close (trace w))
       \<and> (server w = Some srv \<longrightarrow>
            filter server_close (trace (snd (Application_stop (snd (Application_stop w)))))
              = filter server_close (trace w) @ [ServerClose (listening srv), ServerClose False])"
proof -
  from stop_once [OF assms] obtain w1 where
    1: "Application_stop w = (Inr (), w1)" "serviceFactories w1 = Some fs"
       "server w1 = map_option (\<lambda>srv. srv\<lparr>listening := False\<rparr>) (server w)"
       "filter server_close (trace w1)
          = filter server_close (trace w)
            @ (case server w of None \<Rightarrow> [] | Some srv \<Rightarrow> [ServerClose (listening srv)])"
    by blast
  from stop_once [OF 1(2) assms(2)] obtain w2 where
    2: "Application_stop w1 = (Inr (), w2)"
       "filter server_close (trace w2)
          = filter server_close (trace w1)
            @ (case server w1 of None \<Rightarrow> [] | Some srv \<Rightarrow> [ServerClose (listening srv)])"
    by blast
  from 1 2 show ?thesis by (auto split: option.splits)
qed

theorem stop_twice_witness:
  "serviceFactories (started [(''users'', IsServiceFactory ServiceFactory)])
     = Some [(''users'', IsServiceFactory ServiceFactory)]
   \<and> (\<forall>u. fst (factory_stop (ServiceFactory :: nat service_factory) u) = Inr ())
   \<and> server (started [(''users'', IsServiceFactory ServiceFactory)])
     = Some \<lparr>server_port = 3000, listening = True\<rparr>
   \<and> fst (Application_stop (started [(''users'', IsServiceFactory ServiceFactory)])) = Inr ()
   \<and> fst (Application_stop (snd (Application_stop
        (started [(''users'', IsServiceFactory ServiceFactory)])))) = Inr ()
   \<and> filter server_close (trace (snd (Application_stop (snd (Application_stop
        (started [(''users'', IsServiceFactory ServiceFactory)]))))))
     = [ServerClose True, ServerClose False]
   \<and> serviceFactories (configured [(''users'', IsServiceFactory ServiceFactory)])
     = Some [(''users'', IsServiceFactory ServiceFactory)]
   \<and> server (configured [(''users'', IsServiceFactory ServiceFactory)]) = None
   \<and> fst (Application_stop (configured [(''users'', IsServiceFactory ServiceFactory)])) = Inr ()
   \<and> filter server_close (trace (snd (Application_stop (snd (Application_stop
        (configured [(''users'', IsServiceFactory ServiceFactory)])))))) = []"
  using stop_twice [of "started [(''users'', IsServiceFactory ServiceFactory)]"
      "[(''users'', IsServiceFactory ServiceFactory)]" "\<lparr>server_port = 3000, listening = True\<rparr>"]
    stop_twice [of "configured [(''users'', IsServiceFactory ServiceFactory)]"
      "[(''users'', IsServiceFactory ServiceFactory)]" "\<lparr>server_port = 3000, listening = True\<rparr>"]
  by (simp add: app_defs)

text \<open>
  After \<open>start\<close>, the second \<open>stop\<close> calls \<open>close\<close> on the server that the first one
  closed. On an application that was never configured \<open>stop\<close> throws, and so does a
  second \<open>stop\<close> when a factory's \<open>stop\<close> throws on its second call.
\<close>

theorem stop_twice_counterexample:
  "server (started [(''users'', IsServiceFactory ServiceFactory)])
     = Some \<lparr>server_port = 3000, listening = True\<rparr>
   \<and> server (snd (Application_stop (started [(''users'', IsServiceFactory ServiceFactory)])))
     = Some \<lparr>server_port = 3000, listening = False\<rparr>
   \<and> trace (snd (Application_stop (snd (Application_stop
        (started [(''users'', IsServiceFactory ServiceFactory)])))))
     = trace (snd (Application_stop (started [(''users'', IsServiceFactory ServiceFactory)])))
       @ [ServerClose False, FactoryStop ''users'']
   \<and> fst (Application_stop (new_Application (0 :: nat)))
     = Inl (JErr TypeError ''Cannot convert undefined or null to object'')
   \<and> fst (Application_stop (started [(''users'', IsServiceFactory OnceFactory)])) = Inr ()
   \<and> fst (Application_stop (snd (Application_stop (started [(''users'', IsServiceFactory OnceFactory)]))))
     = Inl (JErr Error ''already stopped'')"
  by (simp add: app_defs OnceFactory_def)

end
